theory Spec2Isabelle
  imports Main "HOL-Library.Word"
begin

section \<open>Python strings and exceptions\<close>

text \<open>
  A Python \<open>str\<close> is modelled as a \<open>string\<close> whose characters are the code points
  below 256, one \<open>char\<close> each.  \<open>str.strip()\<close> removes the characters for which
  \<open>str.isspace()\<close> holds, \<open>str.lower()\<close> maps the upper-case letters of that range.
\<close>

definition py_isspace :: "char \<Rightarrow> bool" where
  "py_isspace c =
     (let n = (of_char c :: nat)
      in (9 \<le> n \<and> n \<le> 13) \<or> (28 \<le> n \<and> n \<le> 32) \<or> n = 133 \<or> n = 160)"

definition strip :: "string \<Rightarrow> string" where
  "strip s = rev (dropWhile py_isspace (rev (dropWhile py_isspace s)))"

definition lower_char :: "char \<Rightarrow> char" where
  "lower_char c =
     (let n = (of_char c :: nat)
      in if (65 \<le> n \<and> n \<le> 90) \<or> (192 \<le> n \<and> n \<le> 222 \<and> n \<noteq> 215)
         then char_of (n + 32) else c)"

definition lower :: "string \<Rightarrow> string" where
  "lower s = map lower_char s"

text \<open>\<open>raw.split(sep)\<close> with a one-character separator: never an empty list.\<close>

fun split_on :: "char \<Rightarrow> string \<Rightarrow> string list" where
  "split_on sep [] = [[]]"
| "split_on sep (c # cs) =
     (if c = sep then [] # split_on sep cs
      else (case split_on sep cs of
              [] \<Rightarrow> [[c]]
            | w # ws \<Rightarrow> (c # w) # ws))"

text \<open>\<open>s.startswith(p)\<close>.\<close>

definition startswith :: "string \<Rightarrow> string \<Rightarrow> bool" where
  "startswith s p = (take (length p) s = p)"

text \<open>\<open>a or b\<close> on two strings, and \<open>str(v or d)\<close> on an optional string \<open>v\<close>.\<close>

definition str_or :: "string \<Rightarrow> string \<Rightarrow> string" where
  "str_or a b = (if a = [] then b else a)"

definition opt_str_or :: "string option \<Rightarrow> string \<Rightarrow> string" where
  "opt_str_or v d = (case v of None \<Rightarrow> d | Some s \<Rightarrow> str_or s d)"

text \<open>An optional string that is truthy, and \<open>sep.join(parts)\<close>.\<close>

definition truthy_str :: "string option \<Rightarrow> string option" where
  "truthy_str v = (case v of None \<Rightarrow> None | Some x \<Rightarrow> if x = [] then None else Some x)"

fun join_with :: "string \<Rightarrow> string list \<Rightarrow> string" where
  "join_with sep [] = []"
| "join_with sep [x] = x"
| "join_with sep (x # y # ys) = x @ sep @ join_with sep (y # ys)"

text \<open>
  The exceptions the code distinguishes: \<open>RuntimeError\<close>, the one kind the integrations
  raise themselves and the reconciliation loops catch, and every other subclass of
  \<open>Exception\<close> (a \<open>ValueError\<close> of a hex decoder, a transport error of the RPC client, a
  \<open>KeyError\<close>), named by its class and message.
\<close>

datatype exn = RuntimeError string | OtherException string string

fun str_exc :: "exn \<Rightarrow> string" where
  "str_exc (RuntimeError msg) = msg"
| "str_exc (OtherException cls msg) = msg"

definition exn_bind :: "exn + 'a \<Rightarrow> ('a \<Rightarrow> exn + 'b) \<Rightarrow> exn + 'b" where
  "exn_bind r f = (case r of Inl e \<Rightarrow> Inl e | Inr x \<Rightarrow> f x)"

section \<open>Settings and the chain registry (app/core/config.py, app/core/chains.py)\<close>

record settings =
  supabase_url :: string
  supabase_service_role_key :: string
  feature_escrow_reconciliation_scheduler :: bool
  chain_active_key :: string
  chain_allowed_keys :: string
  evm_rpc_url_sepolia :: string
  evm_rpc_url_amoy :: string
  chain_id_sepolia :: int
  chain_id_amoy :: int
  escrow_contract_address_sepolia :: string
  escrow_contract_address_amoy :: string
  guest_pass_contract_address_sepolia :: string
  guest_pass_contract_address_amoy :: string
  escrow_signer_private_key_sepolia :: string
  escrow_signer_private_key_amoy :: string
  escrow_lock_amount_wei :: int
  escrow_tx_receipt_timeout_sec :: int
  escrow_reconciliation_interval_sec :: int
  escrow_reconciliation_limit :: nat
  escrow_reconciliation_chain_key :: string
  escrow_reconciliation_alert_mismatch_threshold :: int
  escrow_reconciliation_alert_missing_onchain_threshold :: int
  escrow_reconciliation_alert_skipped_threshold :: int
  explorer_base_url_sepolia :: string
  explorer_base_url_amoy :: string
  polygon_rpc_url_amoy :: string
  legacy_chain_id :: int
  escrow_contract_address :: string
  escrow_signer_private_key :: string

text \<open>
  \<open>legacy_chain_id\<close> is the setting \<open>chain_id\<close> of the source, renamed because the
  \<open>ChainConfig\<close> field of the same name follows.  The reconciliation limit is a natural
  number, as are the limit and offset of the listing endpoint (validated \<open>ge=1\<close> and
  \<open>ge=0\<close> there): a negative limit is outside the model.
\<close>

record ChainConfig =
  key :: string
  chain_id :: int
  rpc_url :: string
  cfg_escrow_contract_address :: string
  guest_pass_contract_address :: string
  signer_private_key :: string
  explorer_base_url :: string
  enabled :: bool

definition normalize_keys :: "string \<Rightarrow> string set" where
  "normalize_keys raw =
     set (map (\<lambda>v. lower (strip v)) (filter (\<lambda>v. strip v \<noteq> []) (split_on CHR '','' raw)))"

text \<open>The registry is a dict literal with the keys \<open>sepolia\<close> and \<open>amoy\<close>, in this order.\<close>

definition get_chain_registry :: "settings \<Rightarrow> (string \<times> ChainConfig) list" where
  "get_chain_registry s =
     (let allowed_keys = normalize_keys (chain_allowed_keys s);
          sepolia_rpc = strip (str_or (evm_rpc_url_sepolia s) []);
          amoy_rpc = strip (str_or (evm_rpc_url_amoy s) (str_or (polygon_rpc_url_amoy s) []));
          sepolia_contract = strip (str_or (escrow_contract_address_sepolia s) []);
          amoy_contract =
            strip (str_or (escrow_contract_address_amoy s)
                     (if lower (chain_active_key s) = ''amoy''
                      then escrow_contract_address s else []));
          sepolia_guest_pass = strip (str_or (guest_pass_contract_address_sepolia s) []);
          amoy_guest_pass = strip (str_or (guest_pass_contract_address_amoy s) []);
          sepolia_signer =
            strip (str_or (escrow_signer_private_key_sepolia s) (escrow_signer_private_key s));
          amoy_signer =
            strip (str_or (escrow_signer_private_key_amoy s) (escrow_signer_private_key s))
      in [(''sepolia'',
           \<lparr> key = ''sepolia'',
             chain_id = chain_id_sepolia s,
             rpc_url = sepolia_rpc,
             cfg_escrow_contract_address = sepolia_contract,
             guest_pass_contract_address = sepolia_guest_pass,
             signer_private_key = sepolia_signer,
             explorer_base_url = strip (str_or (explorer_base_url_sepolia s) []),
             enabled = (''sepolia'' \<in> allowed_keys) \<rparr>),
          (''amoy'',
           \<lparr> key = ''amoy'',
             chain_id = (if chain_id_amoy s \<noteq> 0 then chain_id_amoy s else legacy_chain_id s),
             rpc_url = amoy_rpc,
             cfg_escrow_contract_address = amoy_contract,
             guest_pass_contract_address = amoy_guest_pass,
             signer_private_key = amoy_signer,
             explorer_base_url = strip (str_or (explorer_base_url_amoy s) []),
             enabled = (''amoy'' \<in> allowed_keys) \<rparr>)])"

text \<open>
  \<open>next(iter(registry.values()))\<close> raises \<open>StopIteration\<close> on an empty dict, so the
  result is a sum; the lemma \<open>get_active_chain_total\<close> below shows that branch is never taken.
\<close>

definition get_active_chain :: "settings \<Rightarrow> exn + ChainConfig" where
  "get_active_chain s =
     (let registry = get_chain_registry s;
          active_key = lower (strip (str_or (chain_active_key s) []))
      in case map_of registry active_key of
           Some c \<Rightarrow> Inr c
         | None \<Rightarrow>
             (case map_of registry ''sepolia'' of
                Some c \<Rightarrow> Inr c
              | None \<Rightarrow>
                  (case registry of
                     [] \<Rightarrow> Inl (OtherException ''StopIteration'' [])
                   | kc # _ \<Rightarrow> Inr (snd kc))))"

text \<open>The first enabled network of the registry, in the order of its entries.\<close>

definition first_enabled_chain :: "settings \<Rightarrow> ChainConfig option" where
  "first_enabled_chain s = find enabled (map snd (get_chain_registry s))"

section \<open>The escrow contract client (app/integrations/escrow_chain.py)\<close>

text \<open>
  The web3 and eth-account libraries and the RPC node behind them are outside the
  repository.  Each call the client makes is a field of the environment below; a call that
  can raise returns a sum.  \<open>web3_import_error\<close> is the outcome of the two \<open>import\<close>
  statements the client runs first.
\<close>

type_synonym bytes = "8 word list"

datatype abi_value = AbiAddress string | AbiUInt nat

datatype contract_call = CallLock bytes string | CallRelease bytes | CallRefund bytes

record tx_params =
  chainId :: int
  nonce :: int
  tx_from :: string
  tx_value :: "int option"
  gas :: int
  maxFeePerGas :: int
  maxPriorityFeePerGas :: int

record receipt =
  status :: "int option"
  logs :: "bytes list"

type_synonym event = "(string \<times> int) list"

record web3_env =
  web3_import_error :: "exn option"
  is_connected :: "string \<Rightarrow> bool"
  account_from_key :: "string \<Rightarrow> exn + string"
  to_checksum_address :: "string \<Rightarrow> exn + string"
  keccak_text :: "string \<Rightarrow> bytes"
  to_bytes_hexstr :: "string \<Rightarrow> exn + bytes"
  to_hex :: "bytes \<Rightarrow> string"
  get_transaction_count :: "string \<Rightarrow> string \<Rightarrow> exn + int"
  max_priority_fee :: "string \<Rightarrow> exn + int"
  gas_price :: "string \<Rightarrow> exn + int"
  build_transaction :: "string \<Rightarrow> contract_call \<Rightarrow> tx_params \<Rightarrow> exn + bytes"
  sign_transaction :: "string \<Rightarrow> bytes \<Rightarrow> exn + bytes"
  send_raw_transaction :: "string \<Rightarrow> bytes \<Rightarrow> exn + bytes"
  wait_for_transaction_receipt :: "string \<Rightarrow> bytes \<Rightarrow> int \<Rightarrow> exn + receipt"
  process_receipt :: "string \<Rightarrow> receipt \<Rightarrow> exn + event list"
  escrows_call :: "string \<Rightarrow> string \<Rightarrow> bytes \<Rightarrow> exn + abi_value list"

record EscrowLockResult =
  lock_tx_hash :: string
  lock_onchain_booking_id :: string
  lock_event_index :: int

record EscrowSettlementResult =
  tx_hash :: string
  onchain_booking_id :: string
  event_index :: int

record OnchainEscrowRecord =
  booking_id :: string
  state :: string
  amount_wei :: int

text \<open>\<open>int(v)\<close> on an element of the tuple a contract call returns.\<close>

fun py_int :: "abi_value \<Rightarrow> exn + int" where
  "py_int (AbiUInt n) = Inr (int n)"
| "py_int (AbiAddress a) =
     Inl (OtherException ''ValueError''
            (''invalid literal for int() with base 10: '' @ [CHR 0x27] @ a @ [CHR 0x27]))"

text \<open>
  The three checks and the connection test that open \<open>lock\<close>, \<open>release\<close> and \<open>refund\<close>
  (the read drops the signer check), in the order of the source.
\<close>

definition require_chain :: "web3_env \<Rightarrow> ChainConfig \<Rightarrow> bool \<Rightarrow> string \<Rightarrow> exn + unit" where
  "require_chain env chain needs_signer missing =
     (case web3_import_error env of
        Some e \<Rightarrow> Inl (RuntimeError missing)
      | None \<Rightarrow>
          if rpc_url chain = [] then Inl (RuntimeError ''Active chain RPC URL is not configured.'')
          else if cfg_escrow_contract_address chain = []
            then Inl (RuntimeError ''Active chain contract address is not configured.'')
          else if needs_signer \<and> signer_private_key chain = []
            then Inl (RuntimeError ''Active chain signer private key is not configured.'')
          else if \<not> is_connected env (rpc_url chain)
            then Inl (RuntimeError (''Unable to connect to '' @ key chain @ '' RPC.''))
          else Inr ())"

text \<open>
  The try block after a successful receipt: the index of the first decoded event, and
  \<open>0\<close> when there is none or when anything in the block raises.
\<close>

definition decode_event_index :: "web3_env \<Rightarrow> string \<Rightarrow> receipt \<Rightarrow> int" where
  "decode_event_index env event_name rc =
     (case exn_bind (process_receipt env event_name rc)
             (\<lambda>events. case events of
                 [] \<Rightarrow> Inr 0
               | ev # _ \<Rightarrow>
                   (case map_of ev ''logIndex'' of
                      None \<Rightarrow> Inl (OtherException ''KeyError'' ''logIndex'')
                    | Some i \<Rightarrow> Inr i)) of
        Inl e \<Rightarrow> 0
      | Inr i \<Rightarrow> i)"

text \<open>Nonce and fees, transaction build, signature, submission and the wait for the receipt.\<close>

definition submit_transaction ::
  "web3_env \<Rightarrow> settings \<Rightarrow> ChainConfig \<Rightarrow> string \<Rightarrow> string \<Rightarrow> contract_call
     \<Rightarrow> int option \<Rightarrow> int \<Rightarrow> exn + (bytes \<times> receipt)" where
  "submit_transaction env s chain address contract_address call val gas_limit =
     exn_bind (get_transaction_count env (rpc_url chain) address) (\<lambda>n.
     exn_bind (max_priority_fee env (rpc_url chain)) (\<lambda>max_priority.
     exn_bind (gas_price env (rpc_url chain)) (\<lambda>base_fee.
     exn_bind (build_transaction env contract_address call
                 \<lparr> chainId = chain_id chain, nonce = n, tx_from = address, tx_value = val,
                   gas = gas_limit, maxFeePerGas = base_fee + max_priority,
                   maxPriorityFeePerGas = max_priority \<rparr>) (\<lambda>tx.
     exn_bind (sign_transaction env (signer_private_key chain) tx) (\<lambda>signed.
     exn_bind (send_raw_transaction env (rpc_url chain) signed) (\<lambda>tx_hash_bytes.
     exn_bind (wait_for_transaction_receipt env (rpc_url chain) tx_hash_bytes
                 (escrow_tx_receipt_timeout_sec s)) (\<lambda>rc.
       Inr (tx_hash_bytes, rc))))))))"

definition receipt_ok :: "receipt \<Rightarrow> bool" where
  "receipt_ok rc = ((case status rc of None \<Rightarrow> 0 | Some v \<Rightarrow> v) = 1)"

definition lock_reservation_escrow_onchain ::
  "web3_env \<Rightarrow> settings \<Rightarrow> ChainConfig \<Rightarrow> string \<Rightarrow> exn + EscrowLockResult" where
  "lock_reservation_escrow_onchain env s chain reservation_id =
     exn_bind (require_chain env chain True
        ''Missing web3 dependencies. Install/refresh hillside-api dependencies to enable on-chain escrow lock.'')
       (\<lambda>_.
     exn_bind (account_from_key env (signer_private_key chain)) (\<lambda>address.
     exn_bind (to_checksum_address env address) (\<lambda>recipient.
     exn_bind (to_checksum_address env (cfg_escrow_contract_address chain)) (\<lambda>contract_address.
     let booking_id = keccak_text env reservation_id in
     exn_bind (submit_transaction env s chain address contract_address
                 (CallLock booking_id recipient) (Some (escrow_lock_amount_wei s)) 280000)
       (\<lambda>(tx_hash_bytes, rc).
         if \<not> receipt_ok rc
         then Inl (RuntimeError ''On-chain escrow lock transaction reverted.'')
         else Inr \<lparr> lock_tx_hash = to_hex env tx_hash_bytes,
                    lock_onchain_booking_id = to_hex env booking_id,
                    lock_event_index = decode_event_index env ''EscrowLocked'' rc \<rparr>)))))"

definition resolve_booking_id_bytes ::
  "web3_env \<Rightarrow> string \<Rightarrow> string option \<Rightarrow> exn + (bytes \<times> string)" where
  "resolve_booking_id_bytes env reservation_id oid =
     (if (case oid of None \<Rightarrow> False | Some v \<Rightarrow> v \<noteq> [] \<and> startswith v ''0x'')
      then exn_bind (to_bytes_hexstr env (the oid)) (\<lambda>b. Inr (b, lower (the oid)))
      else (let b = keccak_text env reservation_id in Inr (b, to_hex env b)))"

definition settle_reservation_escrow_onchain ::
  "web3_env \<Rightarrow> settings \<Rightarrow> ChainConfig \<Rightarrow> string \<Rightarrow> string option
     \<Rightarrow> string \<Rightarrow> (bytes \<Rightarrow> contract_call) \<Rightarrow> string \<Rightarrow> string \<Rightarrow> exn + EscrowSettlementResult" where
  "settle_reservation_escrow_onchain env s chain reservation_id oid missing call reverted event_name =
     exn_bind (require_chain env chain True missing) (\<lambda>_.
     exn_bind (account_from_key env (signer_private_key chain)) (\<lambda>address.
     exn_bind (to_checksum_address env (cfg_escrow_contract_address chain)) (\<lambda>contract_address.
     exn_bind (resolve_booking_id_bytes env reservation_id oid) (\<lambda>(booking_id_bytes32, booking_id_hex).
     exn_bind (submit_transaction env s chain address contract_address
                 (call booking_id_bytes32) None 220000)
       (\<lambda>(tx_hash_bytes, rc).
         if \<not> receipt_ok rc then Inl (RuntimeError reverted)
         else Inr \<lparr> tx_hash = to_hex env tx_hash_bytes,
                    onchain_booking_id = booking_id_hex,
                    event_index = decode_event_index env event_name rc \<rparr>)))))"

text \<open>
  \<open>release\<close> and \<open>refund\<close> are the same text in the source up to the contract function,
  the event and two messages.
\<close>

definition release_reservation_escrow_onchain ::
  "web3_env \<Rightarrow> settings \<Rightarrow> ChainConfig \<Rightarrow> string \<Rightarrow> string option \<Rightarrow> exn + EscrowSettlementResult" where
  "release_reservation_escrow_onchain env s chain reservation_id oid =
     settle_reservation_escrow_onchain env s chain reservation_id oid
       ''Missing web3 dependencies. Install/refresh hillside-api dependencies to release escrow on-chain.''
       CallRelease ''On-chain escrow release transaction reverted.'' ''EscrowReleased''"

definition refund_reservation_escrow_onchain ::
  "web3_env \<Rightarrow> settings \<Rightarrow> ChainConfig \<Rightarrow> string \<Rightarrow> string option \<Rightarrow> exn + EscrowSettlementResult" where
  "refund_reservation_escrow_onchain env s chain reservation_id oid =
     settle_reservation_escrow_onchain env s chain reservation_id oid
       ''Missing web3 dependencies. Install/refresh hillside-api dependencies to refund escrow on-chain.''
       CallRefund ''On-chain escrow refund transaction reverted.'' ''EscrowRefunded''"

definition state_map :: "int \<Rightarrow> string" where
  "state_map i =
     (if i = 0 then ''none'' else if i = 1 then ''locked'' else if i = 2 then ''released''
      else if i = 3 then ''refunded'' else ''none'')"

definition read_escrow_record_onchain ::
  "web3_env \<Rightarrow> ChainConfig \<Rightarrow> string \<Rightarrow> string option \<Rightarrow> exn + OnchainEscrowRecord" where
  "read_escrow_record_onchain env chain reservation_id oid =
     exn_bind (require_chain env chain False
        ''Missing web3 dependencies. Install/refresh hillside-api dependencies to read on-chain escrow.'')
       (\<lambda>_.
     exn_bind (to_checksum_address env (cfg_escrow_contract_address chain)) (\<lambda>contract_address.
     exn_bind (resolve_booking_id_bytes env reservation_id oid) (\<lambda>(booking_id_bytes32, booking_id_hex).
     exn_bind (escrows_call env (rpc_url chain) contract_address booking_id_bytes32) (\<lambda>row.
     exn_bind (py_int (if length row > 4 then row ! 4 else AbiUInt 0)) (\<lambda>state_index.
     exn_bind (py_int (if length row > 3 then row ! 3 else AbiUInt 0)) (\<lambda>amount.
       Inr \<lparr> booking_id = booking_id_hex,
             state = state_map state_index,
             amount_wei = amount \<rparr>))))))"

section \<open>The reservations table (app/integrations/supabase_client.py)\<close>

text \<open>
  A row of the \<open>reservations\<close> table with the columns the escrow code reads and writes;
  a column that is NULL is \<open>None\<close>.  The fields carry the prefix \<open>row_\<close> because the
  column names are field names of other records here.  \<open>row_created_at\<close> is the
  timestamp as a number.
\<close>

record db_row =
  row_reservation_id :: "string option"
  row_reservation_code :: "string option"
  row_escrow_state :: "string option"
  row_chain_key :: "string option"
  row_chain_id :: "int option"
  row_escrow_contract_address :: "string option"
  row_chain_tx_hash :: "string option"
  row_onchain_booking_id :: "string option"
  row_escrow_event_index :: "int option"
  row_created_at :: int

text \<open>
  What \<open>_runtime_error_from_exception\<close> reads of an exception raised by a request:
  its \<open>message\<close>, \<open>details\<close> and \<open>hint\<close> attributes where it has them, and \<open>str(exc)\<close>.
\<close>

record request_failure =
  exc_message :: "string option"
  exc_str :: string
  exc_details :: "string option"
  exc_hint :: "string option"

text \<open>
  The database service: the table, and \<open>request_error\<close>, the exception a request made
  now would raise (\<open>None\<close> when requests go through).  The list is the table in the
  order the database happens to scan it; that order is not part of the rows' content.
\<close>

record supabase =
  request_error :: "request_failure option"
  reservations :: "db_row list"

definition can_connect :: "settings \<Rightarrow> bool" where
  "can_connect s = (supabase_url s \<noteq> [] \<and> supabase_service_role_key s \<noteq> [])"

text \<open>
  \<open>_runtime_error_from_exception\<close>: the stripped message (the attribute, else
  \<open>str(exc)\<close>, else a fixed text), then the details and the hint when they are there,
  the non-empty parts joined by a space.
\<close>

definition runtime_error_from_exception :: "request_failure \<Rightarrow> exn" where
  "runtime_error_from_exception exc =
     (let message = opt_str_or (exc_message exc) (str_or (exc_str exc) ''Supabase request failed.'');
          parts = [strip message]
                  @ (case truthy_str (exc_details exc) of
                       None \<Rightarrow> [] | Some d \<Rightarrow> [''Details: '' @ d])
                  @ (case truthy_str (exc_hint exc) of
                       None \<Rightarrow> [] | Some h \<Rightarrow> [''Hint: '' @ h])
      in RuntimeError (join_with '' '' (filter (\<lambda>part. part \<noteq> []) parts)))"

text \<open>
  Every request first takes the client, which raises \<open>RuntimeError\<close> when the
  integration is not configured; the functions below wrap whatever is raised.
\<close>

definition db_request :: "settings \<Rightarrow> supabase \<Rightarrow> exn + db_row list" where
  "db_request s db =
     (if \<not> can_connect s
      then Inl (runtime_error_from_exception
                  \<lparr> exc_message = None, exc_str = ''Supabase integration not configured.'',
                    exc_details = None, exc_hint = None \<rparr>)
      else (case request_error db of
              Some exc \<Rightarrow> Inl (runtime_error_from_exception exc)
            | None \<Rightarrow> Inr (reservations db)))"

definition escrow_candidate :: "string \<Rightarrow> db_row \<Rightarrow> bool" where
  "escrow_candidate chain_key r =
     (row_chain_key r = Some chain_key \<and>
      (case row_escrow_state r of
         None \<Rightarrow> False
       | Some st \<Rightarrow> st \<in> set [''pending_lock'', ''locked'', ''released'', ''refunded'', ''failed'']))"

text \<open>
  The query selects the candidates of a chain, newest first, counts all of them
  (\<open>count="exact"\<close>) and returns the rows \<open>offset .. offset + limit - 1\<close> of that order.
  The query has no tie-breaker: rows of equal \<open>created_at\<close> come in whatever order the
  database scans them, here the order of the list, so two requests on unchanged rows may
  see them in either order.
\<close>

definition list_reservations_for_escrow_reconciliation ::
  "settings \<Rightarrow> supabase \<Rightarrow> string \<Rightarrow> nat \<Rightarrow> nat \<Rightarrow> exn + (db_row list \<times> int)" where
  "list_reservations_for_escrow_reconciliation s db chain_key lim off =
     exn_bind (db_request s db) (\<lambda>tbl.
       let matching = filter (escrow_candidate chain_key) tbl;
           ordered = sort_key (\<lambda>r. - row_created_at r) matching
       in Inr (take lim (drop off ordered), int (length matching)))"

definition shadow_guard :: "string \<Rightarrow> string \<Rightarrow> string \<Rightarrow> db_row \<Rightarrow> bool" where
  "shadow_guard reservation_id chain_key expected_tx_hash r =
     (row_reservation_id r = Some reservation_id \<and> row_chain_key r = Some chain_key \<and>
      row_escrow_state r = Some ''pending_lock'' \<and> row_chain_tx_hash r = Some expected_tx_hash)"

definition shadow_cleared :: "db_row \<Rightarrow> db_row" where
  "shadow_cleared r =
     r\<lparr> row_escrow_state := Some ''none'', row_chain_key := None, row_chain_id := None,
        row_escrow_contract_address := None, row_chain_tx_hash := None,
        row_onchain_booking_id := None, row_escrow_event_index := None \<rparr>"

definition shadow_postcondition :: "db_row \<Rightarrow> bool" where
  "shadow_postcondition r =
     (lower (opt_str_or (row_escrow_state r) []) = ''none'' \<and> row_chain_key r = None \<and>
      row_chain_tx_hash r = None \<and> row_onchain_booking_id r = None)"

text \<open>
  The guarded UPDATE, then the SELECT of the row by its id (\<open>limit(1)\<close>) and the check
  on what it returns.  The result is the boolean and the table after the write.
\<close>

definition clear_reservation_shadow_escrow_metadata ::
  "settings \<Rightarrow> supabase \<Rightarrow> string \<Rightarrow> string \<Rightarrow> string \<Rightarrow> exn + (bool \<times> supabase)" where
  "clear_reservation_shadow_escrow_metadata s db reservation_id chain_key expected_tx_hash =
     exn_bind (db_request s db) (\<lambda>tbl.
       let tbl' = map (\<lambda>r. if shadow_guard reservation_id chain_key expected_tx_hash r
                            then shadow_cleared r else r) tbl;
           verify = take 1 (filter (\<lambda>r. row_reservation_id r = Some reservation_id) tbl')
       in Inr ((case verify of [] \<Rightarrow> False | r # _ \<Rightarrow> shadow_postcondition r),
               db\<lparr> reservations := tbl' \<rparr>))"

section \<open>The reconciliation engine and monitor (app/observability/escrow_reconciliation_monitor.py)\<close>

record EscrowReconciliationSummary =
  total :: int
  match :: int
  mismatch :: int
  missing_onchain :: int
  skipped :: int
  alert :: bool

definition new_summary :: "int \<Rightarrow> EscrowReconciliationSummary" where
  "new_summary t =
     \<lparr> total = t, match = 0, mismatch = 0, missing_onchain = 0, skipped = 0, alert = False \<rparr>"

text \<open>
  The body of the loop of \<open>_build_summary\<close> on one row.  \<open>except RuntimeError\<close> counts
  the row as skipped and continues; any other exception leaves the loop and the function.
\<close>

definition build_summary_step ::
  "web3_env \<Rightarrow> ChainConfig \<Rightarrow> db_row \<Rightarrow> EscrowReconciliationSummary
     \<Rightarrow> exn + EscrowReconciliationSummary" where
  "build_summary_step env chain row summary =
     (case read_escrow_record_onchain env chain (opt_str_or (row_reservation_id row) [])
             (row_onchain_booking_id row) of
        Inl (RuntimeError msg) \<Rightarrow> Inr (summary\<lparr> skipped := skipped summary + 1 \<rparr>)
      | Inl (OtherException cls msg) \<Rightarrow> Inl (OtherException cls msg)
      | Inr onchain \<Rightarrow>
          (let onchain_state = state onchain;
               db_state = opt_str_or (row_escrow_state row) ''none''
           in if onchain_state = ''none''
              then Inr (summary\<lparr> missing_onchain := missing_onchain summary + 1 \<rparr>)
              else if db_state = onchain_state
              then Inr (summary\<lparr> match := match summary + 1 \<rparr>)
              else Inr (summary\<lparr> mismatch := mismatch summary + 1 \<rparr>)))"

primrec build_summary_loop ::
  "web3_env \<Rightarrow> ChainConfig \<Rightarrow> db_row list \<Rightarrow> EscrowReconciliationSummary
     \<Rightarrow> exn + EscrowReconciliationSummary" where
  "build_summary_loop env chain [] = (\<lambda>summary. Inr summary)"
| "build_summary_loop env chain (row # rows) =
     (\<lambda>summary. exn_bind (build_summary_step env chain row summary)
                   (build_summary_loop env chain rows))"

definition build_summary ::
  "settings \<Rightarrow> web3_env \<Rightarrow> supabase \<Rightarrow> string \<Rightarrow> nat \<Rightarrow> exn + EscrowReconciliationSummary" where
  "build_summary s env db chain_key lim =
     (case map_of (get_chain_registry s) chain_key of
        None \<Rightarrow>
          Inl (RuntimeError (''Unsupported chain_key '' @ [CHR 0x27] @ chain_key @ [CHR 0x27]
                              @ '' for reconciliation scheduler.''))
      | Some chain \<Rightarrow>
          if \<not> enabled chain
          then Inl (RuntimeError (''Chain '' @ [CHR 0x27] @ chain_key @ [CHR 0x27] @ '' is disabled.''))
          else
            exn_bind (list_reservations_for_escrow_reconciliation s db chain_key lim 0)
              (\<lambda>(rows, count).
            exn_bind (build_summary_loop env chain rows (new_summary count)) (\<lambda>summary.
              Inr (summary\<lparr> alert := (mismatch summary + missing_onchain summary > 0) \<rparr>))))"

text \<open>
  The monitor's state dict.  \<open>ms_enabled\<close>, \<open>ms_limit\<close> and \<open>ms_chain_key\<close> are the keys
  \<open>enabled\<close>, \<open>limit\<close> and \<open>chain_key\<close>.  Timestamps and the measured duration are clock
  readings and come in as arguments: \<open>last_duration_ms\<close> holds \<open>round(duration_ms, 2)\<close>
  as a number of hundredths of a millisecond.
\<close>

record alert_thresholds =
  th_mismatch :: int
  th_missing_onchain :: int
  th_skipped :: int

record monitor_state =
  ms_enabled :: bool
  running :: bool
  interval_sec :: int
  ms_limit :: nat
  ms_chain_key :: "string option"
  last_started_at :: "string option"
  last_finished_at :: "string option"
  last_success_at :: "string option"
  last_duration_ms :: "int option"
  runs_total :: int
  consecutive_failures :: int
  last_error :: "string option"
  last_summary :: "EscrowReconciliationSummary option"
  thresholds :: alert_thresholds
  alert_active :: bool

record clock =
  started_at :: string
  finished_at :: string
  elapsed :: int

definition init_monitor_state :: "settings \<Rightarrow> monitor_state" where
  "init_monitor_state s =
     \<lparr> ms_enabled = feature_escrow_reconciliation_scheduler s,
       running = False,
       interval_sec = escrow_reconciliation_interval_sec s,
       ms_limit = escrow_reconciliation_limit s,
       ms_chain_key = None,
       last_started_at = None,
       last_finished_at = None,
       last_success_at = None,
       last_duration_ms = None,
       runs_total = 0,
       consecutive_failures = 0,
       last_error = None,
       last_summary = None,
       thresholds =
         \<lparr> th_mismatch = escrow_reconciliation_alert_mismatch_threshold s,
           th_missing_onchain = escrow_reconciliation_alert_missing_onchain_threshold s,
           th_skipped = escrow_reconciliation_alert_skipped_threshold s \<rparr>,
       alert_active = False \<rparr>"

definition begin_run :: "string \<Rightarrow> string \<Rightarrow> monitor_state \<Rightarrow> monitor_state" where
  "begin_run now chain_key st =
     st\<lparr> running := True, ms_chain_key := Some chain_key, last_started_at := Some now,
         last_error := None \<rparr>"

definition complete_success ::
  "string \<Rightarrow> int \<Rightarrow> EscrowReconciliationSummary \<Rightarrow> monitor_state \<Rightarrow> monitor_state" where
  "complete_success now duration_ms summary st =
     (let th = thresholds st;
          active = (mismatch summary \<ge> th_mismatch th
                    \<or> missing_onchain summary \<ge> th_missing_onchain th
                    \<or> skipped summary \<ge> th_skipped th)
      in st\<lparr> running := False, last_finished_at := Some now, last_success_at := Some now,
             last_duration_ms := Some duration_ms, runs_total := runs_total st + 1,
             consecutive_failures := 0, last_summary := Some summary,
             alert_active := active, last_error := None \<rparr>)"

definition complete_failure :: "string \<Rightarrow> int \<Rightarrow> string \<Rightarrow> monitor_state \<Rightarrow> monitor_state" where
  "complete_failure now duration_ms error st =
     st\<lparr> running := False, last_finished_at := Some now,
         last_duration_ms := Some duration_ms, runs_total := runs_total st + 1,
         consecutive_failures := consecutive_failures st + 1,
         last_error := Some error, alert_active := True \<rparr>"

definition resolve_chain_key :: "settings \<Rightarrow> exn + string" where
  "resolve_chain_key s =
     (let configured = lower (strip (str_or (escrow_reconciliation_chain_key s) []))
      in if configured \<noteq> [] then Inr configured
         else exn_bind (get_active_chain s) (\<lambda>c. Inr (key c)))"

text \<open>
  \<open>run_escrow_reconciliation_once_now\<close>.  The chain key and \<open>begin_run\<close> come before
  the \<open>try\<close>; the handler is \<open>except Exception\<close>.  The value returned is the snapshot,
  a copy of the state the run leaves behind.
\<close>

definition run_escrow_reconciliation_once_now ::
  "settings \<Rightarrow> web3_env \<Rightarrow> supabase \<Rightarrow> clock \<Rightarrow> monitor_state \<Rightarrow> exn + monitor_state" where
  "run_escrow_reconciliation_once_now s env db clk st =
     exn_bind (resolve_chain_key s) (\<lambda>chain_key.
       let lim = escrow_reconciliation_limit s;
           st1 = begin_run (started_at clk) chain_key st
       in case exn_bind (build_summary s env db chain_key lim)
                 (\<lambda>summary. Inr (complete_success (finished_at clk) (elapsed clk) summary st1)) of
            Inr snapshot \<Rightarrow> Inr snapshot
          | Inl exc \<Rightarrow> Inr (complete_failure (finished_at clk) (elapsed clk) (str_exc exc) st1))"

section \<open>The operator endpoint (app/api/v2/routes/escrow.py)\<close>

fun str_nat :: "nat \<Rightarrow> string" where
  "str_nat n =
     (if n < 10 then [char_of (48 + n)] else str_nat (n div 10) @ [char_of (48 + n mod 10)])"

definition str_int :: "int \<Rightarrow> string" where
  "str_int i = (if i < 0 then CHR ''-'' # str_nat (nat (- i)) else str_nat (nat i))"

record EscrowReconciliationItem =
  item_reservation_id :: string
  item_reservation_code :: string
  db_escrow_state :: string
  item_chain_key :: "string option"
  item_chain_id :: "int option"
  item_chain_tx_hash :: "string option"
  item_onchain_booking_id :: "string option"
  onchain_state :: "string option"
  onchain_amount_wei :: "string option"
  result :: string
  reason :: "string option"

record EscrowReconciliationResponse =
  items :: "EscrowReconciliationItem list"
  count :: int
  limit :: nat
  offset :: nat
  has_more :: bool
  summary :: EscrowReconciliationSummary

datatype http_error = HTTPException int string | Unhandled exn

text \<open>The body of the endpoint's loop on one row: the item appended and the counter raised.\<close>

definition reconciliation_step ::
  "web3_env \<Rightarrow> ChainConfig \<Rightarrow> db_row
     \<Rightarrow> EscrowReconciliationItem list \<times> EscrowReconciliationSummary
     \<Rightarrow> exn + (EscrowReconciliationItem list \<times> EscrowReconciliationSummary)" where
  "reconciliation_step env chain row acc =
     (let its = fst acc; sm = snd acc;
          reservation_id = opt_str_or (row_reservation_id row) [];
          reservation_code = opt_str_or (row_reservation_code row) [];
          db_state = opt_str_or (row_escrow_state row) ''none'';
          db_onchain_booking_id = row_onchain_booking_id row;
          db_chain_tx_hash = row_chain_tx_hash row
      in case read_escrow_record_onchain env chain reservation_id db_onchain_booking_id of
           Inl (RuntimeError msg) \<Rightarrow>
             Inr (its @ [\<lparr> item_reservation_id = reservation_id,
                            item_reservation_code = reservation_code,
                            db_escrow_state = db_state,
                            item_chain_key = row_chain_key row,
                            item_chain_id = row_chain_id row,
                            item_chain_tx_hash = db_chain_tx_hash,
                            item_onchain_booking_id = truthy_str db_onchain_booking_id,
                            onchain_state = None,
                            onchain_amount_wei = None,
                            result = ''skipped'',
                            reason = Some msg \<rparr>],
                  sm\<lparr> skipped := skipped sm + 1 \<rparr>)
         | Inl (OtherException cls msg) \<Rightarrow> Inl (OtherException cls msg)
         | Inr onchain \<Rightarrow>
             (let onchain_st = state onchain;
                  amount = str_int (amount_wei onchain);
                  res = (if onchain_st = ''none'' then ''missing_onchain''
                         else if db_state = onchain_st then ''match'' else ''mismatch'');
                  rsn = (if onchain_st = ''none''
                         then Some ''No escrow record found on-chain for booking id.''
                         else if db_state = onchain_st then None
                         else Some (''DB escrow_state='' @ [CHR 0x27] @ db_state @ [CHR 0x27]
                                    @ '' differs from on-chain state='' @ [CHR 0x27] @ onchain_st
                                    @ [CHR 0x27] @ ''.''));
                  sm' = (if onchain_st = ''none''
                         then sm\<lparr> missing_onchain := missing_onchain sm + 1 \<rparr>
                         else if db_state = onchain_st then sm\<lparr> match := match sm + 1 \<rparr>
                         else sm\<lparr> mismatch := mismatch sm + 1 \<rparr>)
              in Inr (its @ [\<lparr> item_reservation_id = reservation_id,
                               item_reservation_code = reservation_code,
                               db_escrow_state = db_state,
                               item_chain_key = row_chain_key row,
                               item_chain_id = row_chain_id row,
                               item_chain_tx_hash = db_chain_tx_hash,
                               item_onchain_booking_id =
                                 (case truthy_str db_onchain_booking_id of
                                    Some v \<Rightarrow> Some v
                                  | None \<Rightarrow> Some (booking_id onchain)),
                               onchain_state = Some onchain_st,
                               onchain_amount_wei = Some amount,
                               result = res,
                               reason = rsn \<rparr>],
                      sm')))"

primrec reconciliation_loop ::
  "web3_env \<Rightarrow> ChainConfig \<Rightarrow> db_row list
     \<Rightarrow> EscrowReconciliationItem list \<times> EscrowReconciliationSummary
     \<Rightarrow> exn + (EscrowReconciliationItem list \<times> EscrowReconciliationSummary)" where
  "reconciliation_loop env chain [] = (\<lambda>acc. Inr acc)"
| "reconciliation_loop env chain (row # rows) =
     (\<lambda>acc. exn_bind (reconciliation_step env chain row acc)
               (reconciliation_loop env chain rows))"

text \<open>
  \<open>get_escrow_reconciliation\<close>, after authentication.  An exception the handler does
  not catch leaves it as \<open>Unhandled\<close>.
\<close>

definition get_escrow_reconciliation ::
  "settings \<Rightarrow> web3_env \<Rightarrow> supabase \<Rightarrow> string option \<Rightarrow> nat \<Rightarrow> nat
     \<Rightarrow> http_error + EscrowReconciliationResponse" where
  "get_escrow_reconciliation s env db chain_key lim off =
     (case get_active_chain s of
        Inl exc \<Rightarrow> Inl (Unhandled exc)
      | Inr active_chain \<Rightarrow>
          (let resolved_key = lower (case truthy_str chain_key of
                                       Some k \<Rightarrow> k | None \<Rightarrow> key active_chain)
           in case map_of (get_chain_registry s) resolved_key of
                None \<Rightarrow>
                  Inl (HTTPException 400
                         (''Unsupported chain_key '' @ [CHR 0x27] @ resolved_key @ [CHR 0x27] @ ''.''))
              | Some chain \<Rightarrow>
                  if \<not> enabled chain
                  then Inl (HTTPException 400
                              (''Chain '' @ [CHR 0x27] @ resolved_key @ [CHR 0x27] @ '' is disabled.''))
                  else
                    (case list_reservations_for_escrow_reconciliation s db resolved_key lim off of
                       Inl (RuntimeError msg) \<Rightarrow> Inl (HTTPException 503 msg)
                     | Inl (OtherException cls msg) \<Rightarrow> Inl (Unhandled (OtherException cls msg))
                     | Inr (rows, tot) \<Rightarrow>
                         (case reconciliation_loop env chain rows ([], new_summary tot) of
                            Inl exc \<Rightarrow> Inl (Unhandled exc)
                          | Inr (its, sm) \<Rightarrow>
                              Inr \<lparr> items = its,
                                    count = tot,
                                    limit = lim,
                                    offset = off,
                                    has_more = (int off + int (length its) < tot),
                                    summary =
                                      \<lparr> total = total sm,
                                        match = match sm,
                                        mismatch = mismatch sm,
                                        missing_onchain = missing_onchain sm,
                                        skipped = skipped sm,
                                        alert = (mismatch sm + missing_onchain sm > 0) \<rparr> \<rparr>))))"

section \<open>Derived quantities and a sample deployment\<close>

text \<open>The number of bookings a summary has classified.\<close>

definition classified :: "EscrowReconciliationSummary \<Rightarrow> int" where
  "classified sm = match sm + mismatch sm + missing_onchain sm + skipped sm"

text \<open>
  The number of candidate rows the table holds for a chain, the page of them a request
  with a limit and an offset fetches, and the chain key the listing endpoint resolves.
\<close>

definition candidate_count :: "supabase \<Rightarrow> string \<Rightarrow> int" where
  "candidate_count db chain_key =
     int (length (filter (escrow_candidate chain_key) (reservations db)))"

definition fetched_page :: "supabase \<Rightarrow> string \<Rightarrow> nat \<Rightarrow> nat \<Rightarrow> db_row list" where
  "fetched_page db chain_key lim off =
     take lim (drop off (sort_key (\<lambda>r. - row_created_at r)
                           (filter (escrow_candidate chain_key) (reservations db))))"

definition resolved_key :: "settings \<Rightarrow> string option \<Rightarrow> string" where
  "resolved_key s chain_key =
     lower (case truthy_str chain_key of
              Some k \<Rightarrow> k
            | None \<Rightarrow> (case get_active_chain s of Inr c \<Rightarrow> key c | Inl e \<Rightarrow> []))"

text \<open>
  A sample deployment on which the theorems below are evaluated: settings with both
  networks allowed, a node whose answers are fixed functions of their arguments, and a table
  of three candidate rows.  \<open>example_bytes\<close> stands in for the hash and hex codecs.
\<close>

definition example_settings :: settings where
  "example_settings =
     \<lparr> supabase_url = ''db'', supabase_service_role_key = ''k'',
       feature_escrow_reconciliation_scheduler = True,
       chain_active_key = ''sepolia'', chain_allowed_keys = ''sepolia,amoy'',
       evm_rpc_url_sepolia = ''rpc-s'', evm_rpc_url_amoy = ''rpc-a'',
       chain_id_sepolia = 11155111, chain_id_amoy = 80002,
       escrow_contract_address_sepolia = ''0x11'', escrow_contract_address_amoy = ''0x22'',
       guest_pass_contract_address_sepolia = [], guest_pass_contract_address_amoy = [],
       escrow_signer_private_key_sepolia = ''sk'', escrow_signer_private_key_amoy = [],
       escrow_lock_amount_wei = 1, escrow_tx_receipt_timeout_sec = 90,
       escrow_reconciliation_interval_sec = 300, escrow_reconciliation_limit = 200,
       escrow_reconciliation_chain_key = [],
       escrow_reconciliation_alert_mismatch_threshold = 1,
       escrow_reconciliation_alert_missing_onchain_threshold = 1,
       escrow_reconciliation_alert_skipped_threshold = 1,
       explorer_base_url_sepolia = [], explorer_base_url_amoy = [],
       polygon_rpc_url_amoy = [], legacy_chain_id = 80002,
       escrow_contract_address = [], escrow_signer_private_key = [] \<rparr>"

definition example_bytes :: "string \<Rightarrow> bytes" where
  "example_bytes t = map (\<lambda>c. of_nat (of_char c)) t"

definition example_env :: web3_env where
  "example_env =
     \<lparr> web3_import_error = None,
       is_connected = (\<lambda>rpc. True),
       account_from_key = (\<lambda>k. Inr ''0xab''),
       to_checksum_address = (\<lambda>a. Inr a),
       keccak_text = example_bytes,
       to_bytes_hexstr = (\<lambda>h. Inr (example_bytes h)),
       to_hex = (\<lambda>b. ''0x'' @ map (\<lambda>w. char_of (unat w)) b),
       get_transaction_count = (\<lambda>rpc a. Inr 7),
       max_priority_fee = (\<lambda>rpc. Inr 2),
       gas_price = (\<lambda>rpc. Inr 30),
       build_transaction = (\<lambda>a c p. Inr [1]),
       sign_transaction = (\<lambda>k t. Inr (2 # t)),
       send_raw_transaction = (\<lambda>rpc t. Inr [97, 98]),
       wait_for_transaction_receipt = (\<lambda>rpc h t. Inr \<lparr> status = Some 1, logs = [] \<rparr>),
       process_receipt = (\<lambda>n rc. Inl (OtherException ''MismatchedABI'' ''no event'')),
       escrows_call = (\<lambda>rpc a b.
          if b = example_bytes ''r1''
          then Inr [AbiAddress ''p'', AbiAddress ''q'', AbiAddress ''z'', AbiUInt 1, AbiUInt 1, AbiUInt 5]
          else if b = example_bytes ''r2''
          then Inl (RuntimeError ''rpc busy'')
          else Inr []) \<rparr>"

definition example_row :: "string \<Rightarrow> string \<Rightarrow> int \<Rightarrow> db_row" where
  "example_row rid st t =
     \<lparr> row_reservation_id = Some rid, row_reservation_code = Some rid,
       row_escrow_state = Some st, row_chain_key = Some ''sepolia'',
       row_chain_id = Some 11155111, row_escrow_contract_address = Some ''0x11'',
       row_chain_tx_hash = Some ''0xaa'', row_onchain_booking_id = None,
       row_escrow_event_index = Some 0, row_created_at = t \<rparr>"

definition example_db :: supabase where
  "example_db =
     \<lparr> request_error = None,
       reservations = [example_row ''r1'' ''locked'' 3, example_row ''r2'' ''locked'' 2,
                       example_row ''r3'' ''pending_lock'' 1] \<rparr>"

definition offline_env :: web3_env where
  "offline_env = example_env\<lparr> is_connected := (\<lambda>rpc. False) \<rparr>"

text \<open>What the Record Reader returns for a row, as both loops call it.\<close>

definition reader_outcome :: "web3_env \<Rightarrow> ChainConfig \<Rightarrow> db_row \<Rightarrow> exn + OnchainEscrowRecord" where
  "reader_outcome env chain row =
     read_escrow_record_onchain env chain (opt_str_or (row_reservation_id row) [])
       (row_onchain_booking_id row)"

text \<open>The configured active key as \<open>get_active_chain\<close> looks it up.\<close>

definition configured_active_key :: "settings \<Rightarrow> string" where
  "configured_active_key s = lower (strip (str_or (chain_active_key s) []))"

text \<open>
  Variations of the sample deployment: a node whose contract call fails with a transport
  error for booking \<open>r1\<close>, settings whose active key names no network and that allow only
  \<open>amoy\<close>, the registry's entry for \<open>sepolia\<close>, and clock readings for one run.
\<close>

definition failing_env :: web3_env where
  "failing_env =
     example_env\<lparr> escrows_call := (\<lambda>rpc a b.
        if b = example_bytes ''r1''
        then Inl (OtherException ''ConnectionError'' ''connection reset'')
        else escrows_call example_env rpc a b) \<rparr>"

definition misconfigured_settings :: settings where
  "misconfigured_settings =
     example_settings\<lparr> chain_active_key := ''mainnet'', chain_allowed_keys := ''amoy'' \<rparr>"

definition example_clock :: clock where
  "example_clock = \<lparr> started_at = ''t0'', finished_at = ''t1'', elapsed = 1234 \<rparr>"

definition example_chain :: ChainConfig where
  "example_chain =
     \<lparr> key = ''sepolia'', chain_id = 11155111, rpc_url = ''rpc-s'',
       cfg_escrow_contract_address = ''0x11'', guest_pass_contract_address = [],
       signer_private_key = ''sk'', explorer_base_url = [], enabled = True \<rparr>"


text \<open>
  Decoding the event log of a receipt fails: \<open>process_receipt\<close> raises, or the first
  decoded event has no \<open>logIndex\<close>.
\<close>

definition decode_fails :: "web3_env \<Rightarrow> string \<Rightarrow> receipt \<Rightarrow> bool" where
  "decode_fails env event_name rc =
     (case process_receipt env event_name rc of
        Inl e \<Rightarrow> True
      | Inr [] \<Rightarrow> False
      | Inr (ev # _) \<Rightarrow> map_of ev ''logIndex'' = None)"

text \<open>
  The identifier an operation reports back for a supplied identifier \<open>oid\<close>: the
  supplied text lowercased when it starts with \<open>0x\<close>, the hex of the hash of the
  reservation id otherwise.
\<close>

definition resolved_booking_id_hex :: "web3_env \<Rightarrow> string \<Rightarrow> string option \<Rightarrow> string" where
  "resolved_booking_id_hex env reservation_id oid =
     (case oid of
        None \<Rightarrow> to_hex env (keccak_text env reservation_id)
      | Some v \<Rightarrow> if startswith v ''0x'' then lower v
                  else to_hex env (keccak_text env reservation_id))"

text \<open>
  Rows for the shadow cleanup: a shadow row with a given transaction hash, the same
  booking after another cleanup has cleared it, and a table holding one of them.
\<close>

definition cleared_row :: db_row where
  "cleared_row =
     \<lparr> row_reservation_id = Some ''r9'', row_reservation_code = Some ''HR-9'',
       row_escrow_state = Some ''none'', row_chain_key = None,
       row_chain_id = None, row_escrow_contract_address = None,
       row_chain_tx_hash = None, row_onchain_booking_id = None,
       row_escrow_event_index = None, row_created_at = 9 \<rparr>"

definition shadow_row :: "string \<Rightarrow> db_row" where
  "shadow_row h =
     \<lparr> row_reservation_id = Some ''r9'', row_reservation_code = Some ''HR-9'',
       row_escrow_state = Some ''pending_lock'', row_chain_key = Some ''sepolia'',
       row_chain_id = Some 11155111, row_escrow_contract_address = Some ''0x11'',
       row_chain_tx_hash = Some h, row_onchain_booking_id = Some ''0xr9'',
       row_escrow_event_index = Some 0, row_created_at = 9 \<rparr>"

definition shadow_db :: "db_row \<Rightarrow> supabase" where
  "shadow_db r = \<lparr> request_error = None, reservations = [example_row ''r1'' ''locked'' 3, r] \<rparr>"

text \<open>
  A second table and node that differ from the sample ones only outside a \<open>sepolia\<close>
  batch: one more row on \<open>amoy\<close>, another gas price.
\<close>

definition side_db :: supabase where
  "side_db =
     example_db\<lparr> reservations :=
       (example_row ''r7'' ''locked'' 7)\<lparr> row_chain_key := Some ''amoy'' \<rparr> # reservations example_db \<rparr>"

definition side_env :: web3_env where
  "side_env = example_env\<lparr> gas_price := (\<lambda>rpc. Inr 99) \<rparr>"

text \<open>
  The sample node with a hex decoder that undoes \<open>to_hex\<close>, so that a supplied
  identifier can name the record of another booking.
\<close>

definition codec_env :: web3_env where
  "codec_env = example_env\<lparr> to_bytes_hexstr := (\<lambda>h. Inr (example_bytes (drop 2 h))) \<rparr>"

text \<open>
  Two tables with the same two rows of equal \<open>created_at\<close>, scanned in opposite orders.
\<close>

definition tie_db :: supabase where
  "tie_db =
     \<lparr> request_error = None,
       reservations = [example_row ''r1'' ''locked'' 5, example_row ''r3'' ''pending_lock'' 5] \<rparr>"

definition tie_db_swapped :: supabase where
  "tie_db_swapped =
     \<lparr> request_error = None,
       reservations = [example_row ''r3'' ''pending_lock'' 5, example_row ''r1'' ''locked'' 5] \<rparr>"

section \<open>Counting lemmas\<close>

lemma build_summary_step_counts:
  "build_summary_step env chain row sm = Inr sm' \<Longrightarrow>
     classified sm' = classified sm + 1 \<and> total sm' = total sm"
  by (auto simp: build_summary_step_def classified_def Let_def
           split: sum.splits exn.splits if_splits)

lemma build_summary_loop_counts:
  "build_summary_loop env chain rows sm = Inr sm' \<Longrightarrow>
     classified sm' = classified sm + int (length rows) \<and> total sm' = total sm"
proof (induction rows arbitrary: sm)
  case Nil
  then show ?case by simp
next
  case (Cons row rows)
  from Cons.prems obtain sm1 where
    s1: "build_summary_step env chain row sm = Inr sm1" and
    s2: "build_summary_loop env chain rows sm1 = Inr sm'"
    by (auto simp: exn_bind_def split: sum.splits)
  from build_summary_step_counts[OF s1] Cons.IH[OF s2] show ?case by simp
qed

lemma reconciliation_step_counts:
  "reconciliation_step env chain row acc = Inr acc' \<Longrightarrow>
     classified (snd acc') = classified (snd acc) + 1 \<and> total (snd acc') = total (snd acc)
     \<and> length (fst acc') = length (fst acc) + 1"
  by (auto simp: reconciliation_step_def classified_def Let_def
           split: sum.splits exn.splits if_splits)

lemma reconciliation_loop_counts:
  "reconciliation_loop env chain rows acc = Inr acc' \<Longrightarrow>
     classified (snd acc') = classified (snd acc) + int (length rows)
     \<and> total (snd acc') = total (snd acc)
     \<and> length (fst acc') = length (fst acc) + length rows"
proof (induction rows arbitrary: acc)
  case Nil
  then show ?case by simp
next
  case (Cons row rows)
  from Cons.prems obtain a1 where
    s1: "reconciliation_step env chain row acc = Inr a1" and
    s2: "reconciliation_loop env chain rows a1 = Inr acc'"
    by (auto simp: exn_bind_def split: sum.splits)
  from reconciliation_step_counts[OF s1] Cons.IH[OF s2] show ?case by simp
qed

lemma list_reservations_page:
  "list_reservations_for_escrow_reconciliation s db k lim off = Inr (rows, cnt) \<Longrightarrow>
     int (length rows) = min (int lim) (max 0 (cnt - int off)) \<and> 0 \<le> cnt"
  by (auto simp: list_reservations_for_escrow_reconciliation_def exn_bind_def Let_def
           split: sum.splits)

lemma list_reservations_Inr:
  "list_reservations_for_escrow_reconciliation s db k lim off = Inr (rows, cnt) \<Longrightarrow>
     rows = fetched_page db k lim off \<and> cnt = candidate_count db k"
  by (auto simp: list_reservations_for_escrow_reconciliation_def exn_bind_def db_request_def
                 Let_def fetched_page_def candidate_count_def
           split: if_splits option.splits sum.splits)

lemma build_summary_Inr:
  assumes "build_summary s env db k lim = Inr sm"
  obtains chain rows cnt sm1 where
    "map_of (get_chain_registry s) k = Some chain" "enabled chain"
    "list_reservations_for_escrow_reconciliation s db k lim 0 = Inr (rows, cnt)"
    "build_summary_loop env chain rows (new_summary cnt) = Inr sm1"
    "sm = sm1\<lparr> alert := (mismatch sm1 + missing_onchain sm1 > 0) \<rparr>"
  using assms
  by (auto simp: build_summary_def exn_bind_def split: option.splits if_splits sum.splits)

lemma get_escrow_reconciliation_Inr:
  assumes "get_escrow_reconciliation s env db ck lim off = Inr resp"
  obtains chain rows cnt its sm1 where
    "map_of (get_chain_registry s) (resolved_key s ck) = Some chain" "enabled chain"
    "list_reservations_for_escrow_reconciliation s db (resolved_key s ck) lim off
       = Inr (rows, cnt)"
    "reconciliation_loop env chain rows ([], new_summary cnt) = Inr (its, sm1)"
    "summary resp = \<lparr> total = total sm1, match = match sm1, mismatch = mismatch sm1,
        missing_onchain = missing_onchain sm1, skipped = skipped sm1,
        alert = (mismatch sm1 + missing_onchain sm1 > 0) \<rparr>"
    "items resp = its" "count resp = cnt"
  using assms
  by (auto simp: get_escrow_reconciliation_def resolved_key_def Let_def
           split: option.splits if_splits sum.splits exn.splits)

section \<open>Loop and registry lemmas\<close>

lemma build_summary_step_skipped:
  "reader_outcome env chain row = Inl (RuntimeError msg) \<Longrightarrow>
     build_summary_step env chain row sm = Inr (sm\<lparr> skipped := skipped sm + 1 \<rparr>)"
  by (simp add: build_summary_step_def reader_outcome_def)

lemma reconciliation_step_skipped:
  "reader_outcome env chain row = Inl (RuntimeError msg) \<Longrightarrow>
     \<exists>item. result item = ''skipped'' \<and> reason item = Some msg \<and>
       reconciliation_step env chain row (its, sm)
         = Inr (its @ [item], sm\<lparr> skipped := skipped sm + 1 \<rparr>)"
  by (simp add: reconciliation_step_def reader_outcome_def Let_def)

lemma build_summary_step_total:
  "\<forall>cls m. reader_outcome env chain row \<noteq> Inl (OtherException cls m) \<Longrightarrow>
     \<exists>sm'. build_summary_step env chain row sm = Inr sm'"
  by (auto simp: build_summary_step_def reader_outcome_def Let_def
           split: sum.splits exn.splits)

lemma reconciliation_step_total:
  "\<forall>cls m. reader_outcome env chain row \<noteq> Inl (OtherException cls m) \<Longrightarrow>
     \<exists>acc'. reconciliation_step env chain row acc = Inr acc'"
  by (auto simp: reconciliation_step_def reader_outcome_def Let_def
           split: sum.splits exn.splits)

lemma build_summary_loop_total:
  "\<forall>r \<in> set rows. \<forall>cls m. reader_outcome env chain r \<noteq> Inl (OtherException cls m) \<Longrightarrow>
     \<exists>sm'. build_summary_loop env chain rows sm = Inr sm'"
proof (induction rows arbitrary: sm)
  case Nil
  then show ?case by simp
next
  case (Cons row rows)
  from Cons.prems have "\<forall>cls m. reader_outcome env chain row \<noteq> Inl (OtherException cls m)"
    by simp
  from build_summary_step_total[OF this] obtain sm1 where
    s1: "build_summary_step env chain row sm = Inr sm1" by blast
  from Cons.prems have
    "\<forall>r \<in> set rows. \<forall>cls m. reader_outcome env chain r \<noteq> Inl (OtherException cls m)"
    by simp
  from Cons.IH[OF this] obtain sm' where "build_summary_loop env chain rows sm1 = Inr sm'"
    by blast
  with s1 show ?case by (simp add: exn_bind_def)
qed

lemma reconciliation_loop_total:
  "\<forall>r \<in> set rows. \<forall>cls m. reader_outcome env chain r \<noteq> Inl (OtherException cls m) \<Longrightarrow>
     \<exists>acc'. reconciliation_loop env chain rows acc = Inr acc'"
proof (induction rows arbitrary: acc)
  case Nil
  then show ?case by simp
next
  case (Cons row rows)
  from Cons.prems have "\<forall>cls m. reader_outcome env chain row \<noteq> Inl (OtherException cls m)"
    by simp
  from reconciliation_step_total[OF this] obtain a1 where
    s1: "reconciliation_step env chain row acc = Inr a1" by blast
  from Cons.prems have
    "\<forall>r \<in> set rows. \<forall>cls m. reader_outcome env chain r \<noteq> Inl (OtherException cls m)"
    by simp
  from Cons.IH[OF this] obtain acc' where "reconciliation_loop env chain rows a1 = Inr acc'"
    by blast
  with s1 show ?case by (simp add: exn_bind_def)
qed

lemma get_chain_registry_sepolia:
  "\<exists>c. map_of (get_chain_registry s) ''sepolia'' = Some c \<and> key c = ''sepolia''
        \<and> enabled c = (''sepolia'' \<in> normalize_keys (chain_allowed_keys s))"
  by (simp add: get_chain_registry_def Let_def)

lemma get_active_chain_total: "\<exists>c. get_active_chain s = Inr c"
  using get_chain_registry_sepolia[of s]
  by (auto simp: get_active_chain_def Let_def split: option.splits)

lemma resolve_chain_key_total: "\<exists>ck. resolve_chain_key s = Inr ck"
  using get_active_chain_total[of s]
  by (auto simp: resolve_chain_key_def Let_def exn_bind_def)

section \<open>Contract client lemmas\<close>

lemma require_chain_msg:
  "require_chain env chain b m = Inr () \<Longrightarrow> require_chain env chain b m' = Inr ()"
  by (auto simp: require_chain_def split: option.splits if_splits)

lemma decode_fails_index: "decode_fails env n rc \<Longrightarrow> decode_event_index env n rc = 0"
  by (auto simp: decode_fails_def decode_event_index_def exn_bind_def
           split: sum.splits list.splits option.splits)

lemma startswith_nonempty: "startswith v ''0x'' \<Longrightarrow> v \<noteq> []"
  by (auto simp: startswith_def)

lemma resolve_booking_id_bytes_hex:
  "resolve_booking_id_bytes env rid oid = Inr (b, hex) \<Longrightarrow> hex = resolved_booking_id_hex env rid oid"
  by (auto simp: resolve_booking_id_bytes_def resolved_booking_id_hex_def exn_bind_def Let_def
           split: option.splits if_splits sum.splits dest: startswith_nonempty)

lemma exn_bind_Inr: "exn_bind r f = Inr y \<longleftrightarrow> (\<exists>x. r = Inr x \<and> f x = Inr y)"
  by (cases r) (simp_all add: exn_bind_def)

lemma submit_transaction_Inr:
  "submit_transaction env s chain address caddr call val g = Inr (txh, rc) \<Longrightarrow>
     \<exists>n mp bf tx signed.
       get_transaction_count env (rpc_url chain) address = Inr n
       \<and> max_priority_fee env (rpc_url chain) = Inr mp
       \<and> gas_price env (rpc_url chain) = Inr bf
       \<and> build_transaction env caddr call
            \<lparr> chainId = chain_id chain, nonce = n, tx_from = address, tx_value = val,
              gas = g, maxFeePerGas = bf + mp, maxPriorityFeePerGas = mp \<rparr> = Inr tx
       \<and> sign_transaction env (signer_private_key chain) tx = Inr signed
       \<and> send_raw_transaction env (rpc_url chain) signed = Inr txh
       \<and> wait_for_transaction_receipt env (rpc_url chain) txh
            (escrow_tx_receipt_timeout_sec s) = Inr rc"
  unfolding submit_transaction_def exn_bind_Inr by blast

lemma settle_Inr:
  "settle_reservation_escrow_onchain env s chain rid oid m call rv ev = Inr r \<Longrightarrow>
     \<exists>b address caddr txh rc.
       account_from_key env (signer_private_key chain) = Inr address
       \<and> to_checksum_address env (cfg_escrow_contract_address chain) = Inr caddr
       \<and> resolve_booking_id_bytes env rid oid = Inr (b, onchain_booking_id r)
       \<and> submit_transaction env s chain address caddr (call b) None 220000 = Inr (txh, rc)
       \<and> receipt_ok rc
       \<and> tx_hash r = to_hex env txh"
  by (auto simp: settle_reservation_escrow_onchain_def exn_bind_Inr split: if_splits)

lemma read_Inr:
  "read_escrow_record_onchain env chain rid oid = Inr rec \<Longrightarrow>
     \<exists>b caddr row si am.
       to_checksum_address env (cfg_escrow_contract_address chain) = Inr caddr
       \<and> resolve_booking_id_bytes env rid oid = Inr (b, booking_id rec)
       \<and> escrows_call env (rpc_url chain) caddr b = Inr row
       \<and> py_int (if length row > 4 then row ! 4 else AbiUInt 0) = Inr si
       \<and> state rec = state_map si
       \<and> py_int (if length row > 3 then row ! 3 else AbiUInt 0) = Inr am
       \<and> amount_wei rec = am"
  by (auto simp: read_escrow_record_onchain_def exn_bind_Inr split del: if_split)

lemma lock_Inr:
  "lock_reservation_escrow_onchain env s chain rid = Inr r \<Longrightarrow>
     \<exists>address recipient caddr txh rc.
       account_from_key env (signer_private_key chain) = Inr address
       \<and> to_checksum_address env address = Inr recipient
       \<and> to_checksum_address env (cfg_escrow_contract_address chain) = Inr caddr
       \<and> submit_transaction env s chain address caddr
            (CallLock (keccak_text env rid) recipient) (Some (escrow_lock_amount_wei s)) 280000
           = Inr (txh, rc)
       \<and> receipt_ok rc
       \<and> lock_onchain_booking_id r = to_hex env (keccak_text env rid)
       \<and> lock_tx_hash r = to_hex env txh"
  by (auto simp: lock_reservation_escrow_onchain_def exn_bind_Inr Let_def split: if_splits)

section \<open>Shadow cleanup and determinism lemmas\<close>

lemma find_map_same:
  "(\<And>x. P (f x) = P x) \<Longrightarrow> find P (map f xs) = map_option f (find P xs)"
  by (induction xs) auto

lemma shadow_cleared_id: "row_reservation_id (shadow_cleared r) = row_reservation_id r"
  by (simp add: shadow_cleared_def)

lemma take1_filter_find:
  "(case take 1 (filter P xs) of [] \<Rightarrow> False | r # _ \<Rightarrow> Q r)
     = (case find P xs of None \<Rightarrow> False | Some r \<Rightarrow> Q r)"
  by (induction xs) auto

lemma shadow_postcondition_cleared:
  "shadow_postcondition (shadow_cleared r)"
  by (simp add: shadow_postcondition_def shadow_cleared_def opt_str_or_def str_or_def lower_def
       lower_char_def)

lemma build_summary_step_cong:
  assumes "reader_outcome env1 chain row = reader_outcome env2 chain row"
  shows "build_summary_step env1 chain row sm = build_summary_step env2 chain row sm"
proof -
  have "read_escrow_record_onchain env1 chain (opt_str_or (row_reservation_id row) [])
          (row_onchain_booking_id row)
        = read_escrow_record_onchain env2 chain (opt_str_or (row_reservation_id row) [])
          (row_onchain_booking_id row)"
    using assms unfolding reader_outcome_def .
  then show ?thesis
    unfolding build_summary_step_def by (rule arg_cong)
qed

lemma build_summary_loop_cong:
  assumes "\<forall>r \<in> set rows. reader_outcome env1 chain r = reader_outcome env2 chain r"
  shows "build_summary_loop env1 chain rows = build_summary_loop env2 chain rows"
  using assms
proof (induction rows)
  case Nil
  show ?case by simp
next
  case (Cons row rows)
  from Cons.prems have r: "reader_outcome env1 chain row = reader_outcome env2 chain row"
    by simp
  from Cons.prems have
    "\<forall>r \<in> set rows. reader_outcome env1 chain r = reader_outcome env2 chain r"
    by simp
  then have ih: "build_summary_loop env1 chain rows = build_summary_loop env2 chain rows"
    by (rule Cons.IH)
  have st: "build_summary_step env1 chain row = build_summary_step env2 chain row"
    by (rule ext) (rule build_summary_step_cong[OF r])
  show ?case
    unfolding build_summary_loop.simps ih st ..
qed

section \<open>Summary counters and the alert flags\<close>

text \<open>
  Claim C1, as amended.  In every summary, \<open>total\<close> is the number of all candidate rows
  of the chain, and the four counters add up to the number of rows of the fetched page,
  which is \<open>min(limit, max(total - offset, 0))\<close>; this holds for the engine's batch summary
  (offset 0) and for the summary of the operator's reconciliation listing.
\<close>

theorem reconciliation_counts_cover_page:
  "(build_summary s env db k lim = Inr sm \<longrightarrow>
      total sm = candidate_count db k
      \<and> classified sm = int (length (fetched_page db k lim 0))
      \<and> classified sm = min (int lim) (candidate_count db k))
   \<and> (get_escrow_reconciliation s env db ck lim off = Inr resp \<longrightarrow>
        total (summary resp) = candidate_count db (resolved_key s ck)
        \<and> classified (summary resp)
            = int (length (fetched_page db (resolved_key s ck) lim off))
        \<and> classified (summary resp)
            = min (int lim) (max 0 (candidate_count db (resolved_key s ck) - int off)))"
proof (intro conjI impI)
  assume "build_summary s env db k lim = Inr sm"
  then obtain chain rows cnt sm1 where
    pg: "list_reservations_for_escrow_reconciliation s db k lim 0 = Inr (rows, cnt)" and
    lp: "build_summary_loop env chain rows (new_summary cnt) = Inr sm1" and
    sm: "sm = sm1\<lparr> alert := (mismatch sm1 + missing_onchain sm1 > 0) \<rparr>"
    by (rule build_summary_Inr)
  from build_summary_loop_counts[OF lp] sm
  have c: "classified sm = int (length rows)" and t: "total sm = cnt"
    by (simp_all add: classified_def new_summary_def)
  from list_reservations_Inr[OF pg] have
    r: "rows = fetched_page db k lim 0" and n: "cnt = candidate_count db k"
    by simp_all
  from list_reservations_page[OF pg] have
    l: "int (length rows) = min (int lim) (max 0 (cnt - int 0))" and nn: "0 \<le> cnt"
    by simp_all
  from t n show "total sm = candidate_count db k" by simp
  from c r show "classified sm = int (length (fetched_page db k lim 0))" by simp
  from c l nn n show "classified sm = min (int lim) (candidate_count db k)" by simp
next
  assume "get_escrow_reconciliation s env db ck lim off = Inr resp"
  then obtain chain rows cnt its sm1 where
    pg: "list_reservations_for_escrow_reconciliation s db (resolved_key s ck) lim off
           = Inr (rows, cnt)" and
    lp: "reconciliation_loop env chain rows ([], new_summary cnt) = Inr (its, sm1)" and
    sm: "summary resp = \<lparr> total = total sm1, match = match sm1, mismatch = mismatch sm1,
        missing_onchain = missing_onchain sm1, skipped = skipped sm1,
        alert = (mismatch sm1 + missing_onchain sm1 > 0) \<rparr>"
    by (rule get_escrow_reconciliation_Inr)
  from reconciliation_loop_counts[OF lp] sm
  have c: "classified (summary resp) = int (length rows)" and t: "total (summary resp) = cnt"
    by (simp_all add: classified_def new_summary_def)
  from list_reservations_Inr[OF pg] have
    r: "rows = fetched_page db (resolved_key s ck) lim off"
    and n: "cnt = candidate_count db (resolved_key s ck)"
    by simp_all
  from list_reservations_page[OF pg] have
    l: "int (length rows) = min (int lim) (max 0 (cnt - int off))"
    by simp
  from t n show "total (summary resp) = candidate_count db (resolved_key s ck)" by simp
  from c r show "classified (summary resp)
            = int (length (fetched_page db (resolved_key s ck) lim off))" by simp
  from c l n show "classified (summary resp)
            = min (int lim) (max 0 (candidate_count db (resolved_key s ck) - int off))" by simp
qed

theorem reconciliation_counts_cover_page_witness:
  "build_summary example_settings example_env example_db ''sepolia'' 2
     = Inr \<lparr> total = 3, match = 1, mismatch = 0, missing_onchain = 0, skipped = 1,
             alert = False \<rparr>
   \<and> candidate_count example_db ''sepolia'' = 3
   \<and> length (fetched_page example_db ''sepolia'' 2 0) = 2
   \<and> classified \<lparr> total = 3, match = 1, mismatch = 0, missing_onchain = 0, skipped = 1,
                   alert = False \<rparr> = 2
   \<and> isl (get_escrow_reconciliation example_settings example_env example_db None 2 1) = False
   \<and> resolved_key example_settings None = ''sepolia''
   \<and> length (fetched_page example_db ''sepolia'' 2 1) = 2
   \<and> total (summary (projr
         (get_escrow_reconciliation example_settings example_env example_db None 2 1))) = 3
   \<and> classified (summary (projr
         (get_escrow_reconciliation example_settings example_env example_db None 2 1))) = 2"
proof -
  let ?S = "\<lparr> total = 3, match = 1, mismatch = 0, missing_onchain = 0, skipped = 1,
              alert = False \<rparr>"
  let ?R = "get_escrow_reconciliation example_settings example_env example_db None 2 1"
  have h1: "build_summary example_settings example_env example_db ''sepolia'' 2 = Inr ?S"
    by code_simp
  have h2: "?R = Inr (projr ?R)"
    by code_simp
  have h3: "candidate_count example_db ''sepolia'' = 3"
    by code_simp
  have h4: "isl ?R = False"
    by code_simp
  have h5: "length (fetched_page example_db ''sepolia'' 2 0) = 2"
    by code_simp
  have h6: "length (fetched_page example_db ''sepolia'' 2 1) = 2"
    by code_simp
  have h7: "resolved_key example_settings None = ''sepolia''"
    by code_simp
  from reconciliation_counts_cover_page
         [of example_settings example_env example_db "''sepolia''" 2 ?S None 1 "projr ?R"]
       h1 h2 h3 h4 h5 h6 h7
  show ?thesis by simp
qed

text \<open>
  Claim C1 as stated fails: with three candidate rows and a limit of two, the summary has
  \<open>total = 3\<close> and its four counters add up to \<open>2\<close>.
\<close>

theorem summary_total_counterexample:
  "build_summary example_settings example_env example_db ''sepolia'' 2
     = Inr \<lparr> total = 3, match = 1, mismatch = 0, missing_onchain = 0, skipped = 1,
             alert = False \<rparr>
   \<and> match \<lparr> total = 3, match = 1, mismatch = 0, missing_onchain = 0, skipped = 1,
              alert = False \<rparr>
     + mismatch \<lparr> total = 3, match = 1, mismatch = 0, missing_onchain = 0, skipped = 1,
                  alert = False \<rparr>
     + missing_onchain \<lparr> total = 3, match = 1, mismatch = 0, missing_onchain = 0, skipped = 1,
                         alert = False \<rparr>
     + skipped \<lparr> total = 3, match = 1, mismatch = 0, missing_onchain = 0, skipped = 1,
                 alert = False \<rparr>
     \<noteq> total \<lparr> total = 3, match = 1, mismatch = 0, missing_onchain = 0, skipped = 1,
                alert = False \<rparr>"
  by code_simp

text \<open>
  Claim C2.  Every summary the engine or the listing endpoint computes has
  \<open>alert = (mismatch + missing_onchain > 0)\<close>; the skipped count has no part in it.
\<close>

theorem summary_alert_flag:
  "(build_summary s env db k lim = Inr sm \<longrightarrow>
      alert sm = (mismatch sm + missing_onchain sm > 0))
   \<and> (get_escrow_reconciliation s env db ck lim off = Inr resp \<longrightarrow>
        alert (summary resp) = (mismatch (summary resp) + missing_onchain (summary resp) > 0))"
proof (intro conjI impI)
  assume "build_summary s env db k lim = Inr sm"
  then show "alert sm = (mismatch sm + missing_onchain sm > 0)"
    by (elim build_summary_Inr) simp
next
  assume "get_escrow_reconciliation s env db ck lim off = Inr resp"
  then show "alert (summary resp) = (mismatch (summary resp) + missing_onchain (summary resp) > 0)"
    by (elim get_escrow_reconciliation_Inr) simp
qed

theorem summary_alert_flag_witness:
  "build_summary example_settings offline_env example_db ''sepolia'' 2
     = Inr \<lparr> total = 3, match = 0, mismatch = 0, missing_onchain = 0, skipped = 2,
             alert = False \<rparr>
   \<and> isl (get_escrow_reconciliation example_settings offline_env example_db None 2 0) = False
   \<and> alert (summary (projr
         (get_escrow_reconciliation example_settings offline_env example_db None 2 0))) = False"
proof -
  let ?S = "\<lparr> total = 3, match = 0, mismatch = 0, missing_onchain = 0, skipped = 2,
              alert = False \<rparr>"
  let ?R = "get_escrow_reconciliation example_settings offline_env example_db None 2 0"
  have h1: "build_summary example_settings offline_env example_db ''sepolia'' 2 = Inr ?S"
    by code_simp
  have h2: "?R = Inr (projr ?R)"
    by code_simp
  have h3: "missing_onchain (summary (projr ?R)) = 0" "mismatch (summary (projr ?R)) = 0"
    by code_simp+
  have h4: "isl ?R = False"
    by code_simp
  from summary_alert_flag
         [of example_settings offline_env example_db "''sepolia''" 2 ?S None 0 "projr ?R"]
       h1 h2 h3 h4
  show ?thesis by simp
qed

text \<open>
  Claim C3.  After a successful run \<open>alert_active\<close> holds exactly when one of the
  summary's mismatch, missing_onchain and skipped counts reaches its threshold; after a
  failed run \<open>running\<close> is false, \<open>consecutive_failures\<close> is one more, the error message is
  recorded and \<open>alert_active\<close> is true whatever the thresholds.
\<close>

theorem monitor_alert_active:
  "alert_active (complete_success now d sm st) =
     (mismatch sm \<ge> th_mismatch (thresholds st)
      \<or> missing_onchain sm \<ge> th_missing_onchain (thresholds st)
      \<or> skipped sm \<ge> th_skipped (thresholds st))
   \<and> running (complete_failure now d err st) = False
   \<and> consecutive_failures (complete_failure now d err st) = consecutive_failures st + 1
   \<and> last_error (complete_failure now d err st) = Some err
   \<and> alert_active (complete_failure now d err st) = True"
  by (simp add: complete_success_def complete_failure_def Let_def)

text \<open>
  The scenario of the claim: thresholds \<open>1, 1, 1\<close> and a run with two skipped bookings and
  no mismatch; the monitor's flag is set while the summary's own flag is not.
\<close>

theorem monitor_alert_active_witness:
  "build_summary example_settings offline_env example_db ''sepolia'' 2
     = Inr \<lparr> total = 3, match = 0, mismatch = 0, missing_onchain = 0, skipped = 2,
             alert = False \<rparr>
   \<and> thresholds (init_monitor_state example_settings)
       = \<lparr> th_mismatch = 1, th_missing_onchain = 1, th_skipped = 1 \<rparr>
   \<and> alert_active (complete_success ''t1'' 5
        \<lparr> total = 3, match = 0, mismatch = 0, missing_onchain = 0, skipped = 2, alert = False \<rparr>
        (init_monitor_state example_settings)) = True
   \<and> consecutive_failures (complete_failure ''t1'' 5 ''boom''
        (init_monitor_state example_settings)) = 1
   \<and> alert_active (complete_failure ''t1'' 5 ''boom''
        (init_monitor_state example_settings)) = True"
proof -
  let ?S = "\<lparr> total = 3, match = 0, mismatch = 0, missing_onchain = 0, skipped = 2,
              alert = False \<rparr>"
  have h1: "build_summary example_settings offline_env example_db ''sepolia'' 2 = Inr ?S"
    by code_simp
  have h2: "thresholds (init_monitor_state example_settings)
              = \<lparr> th_mismatch = 1, th_missing_onchain = 1, th_skipped = 1 \<rparr>"
    by code_simp
  have h3: "consecutive_failures (init_monitor_state example_settings) = 0"
    by code_simp
  from monitor_alert_active
         [of "''t1''" 5 ?S "init_monitor_state example_settings" "''boom''"] h1 h2 h3
  show ?thesis by simp
qed

section \<open>Reader failures in a batch\<close>

text \<open>
  Claim C4, as amended.  When the Record Reader raises \<open>RuntimeError\<close> on a booking, the
  booking is counted as skipped and the loop goes on with the next one, in the engine and
  in the listing endpoint; and when no booking of a batch makes the reader raise an
  exception of another kind, the loop ends normally with every booking classified.
\<close>

theorem reader_runtime_error_is_skipped:
  "(reader_outcome env chain row = Inl (RuntimeError msg) \<longrightarrow>
      build_summary_loop env chain (row # rows) sm
        = build_summary_loop env chain rows (sm\<lparr> skipped := skipped sm + 1 \<rparr>)
      \<and> (\<exists>item. result item = ''skipped'' \<and>
            reconciliation_loop env chain (row # rows) (its, sm)
              = reconciliation_loop env chain rows
                  (its @ [item], sm\<lparr> skipped := skipped sm + 1 \<rparr>)))
   \<and> ((\<forall>r \<in> set rows. \<forall>cls m. reader_outcome env chain r \<noteq> Inl (OtherException cls m)) \<longrightarrow>
        (\<exists>sm'. build_summary_loop env chain rows sm = Inr sm'
               \<and> classified sm' = classified sm + int (length rows))
        \<and> (\<exists>its' sm'. reconciliation_loop env chain rows (its, sm) = Inr (its', sm')
               \<and> classified sm' = classified sm + int (length rows)
               \<and> length its' = length its + length rows))"
proof (intro conjI impI)
  assume r: "reader_outcome env chain row = Inl (RuntimeError msg)"
  from build_summary_step_skipped[OF r]
  show "build_summary_loop env chain (row # rows) sm
        = build_summary_loop env chain rows (sm\<lparr> skipped := skipped sm + 1 \<rparr>)"
    by (simp add: exn_bind_def)
  from reconciliation_step_skipped[OF r, of its sm]
  show "\<exists>item. result item = ''skipped'' \<and>
            reconciliation_loop env chain (row # rows) (its, sm)
              = reconciliation_loop env chain rows
                  (its @ [item], sm\<lparr> skipped := skipped sm + 1 \<rparr>)"
    by (auto simp: exn_bind_def)
next
  assume a: "\<forall>r \<in> set rows. \<forall>cls m. reader_outcome env chain r \<noteq> Inl (OtherException cls m)"
  from build_summary_loop_total[OF a] obtain sm' where
    l: "build_summary_loop env chain rows sm = Inr sm'" by blast
  from build_summary_loop_counts[OF l] l
  show "\<exists>sm'. build_summary_loop env chain rows sm = Inr sm'
               \<and> classified sm' = classified sm + int (length rows)"
    by simp
  from reconciliation_loop_total[OF a] obtain acc' where
    l2: "reconciliation_loop env chain rows (its, sm) = Inr acc'" by blast
  from reconciliation_loop_counts[OF l2] l2
  show "\<exists>its' sm'. reconciliation_loop env chain rows (its, sm) = Inr (its', sm')
               \<and> classified sm' = classified sm + int (length rows)
               \<and> length its' = length its + length rows"
    by (cases acc') simp
qed

theorem reader_runtime_error_is_skipped_witness:
  "reader_outcome example_env example_chain (example_row ''r2'' ''locked'' 2)
     = Inl (RuntimeError ''rpc busy'')
   \<and> isl (reader_outcome example_env example_chain (example_row ''r3'' ''pending_lock'' 1))
       = False
   \<and> build_summary_loop example_env example_chain
        [example_row ''r2'' ''locked'' 2, example_row ''r3'' ''pending_lock'' 1] (new_summary 2)
       = build_summary_loop example_env example_chain [example_row ''r3'' ''pending_lock'' 1]
           ((new_summary 2)\<lparr> skipped := skipped (new_summary 2) + 1 \<rparr>)
   \<and> (\<exists>sm'. build_summary_loop example_env example_chain
                [example_row ''r3'' ''pending_lock'' 1] (new_summary 2) = Inr sm'
             \<and> classified sm' = classified (new_summary 2) + 1)"
proof -
  let ?r2 = "example_row ''r2'' ''locked'' 2"
  let ?r3 = "example_row ''r3'' ''pending_lock'' 1"
  have h1: "reader_outcome example_env example_chain ?r2 = Inl (RuntimeError ''rpc busy'')"
    by code_simp
  have h0: "isl (reader_outcome example_env example_chain ?r3) = False"
    by code_simp
  then have h2: "\<forall>r \<in> set [?r3]. \<forall>cls m.
      reader_outcome example_env example_chain r \<noteq> Inl (OtherException cls m)"
    by auto
  from reader_runtime_error_is_skipped
         [of example_env example_chain ?r2 "''rpc busy''" "[?r3]" "new_summary 2" "[]"] h0 h1 h2
  show ?thesis by simp
qed

text \<open>
  Claim C4 as stated fails: the loops catch \<open>RuntimeError\<close> only.  When the contract
  call for the first booking raises a transport error, the reader fails with it, the
  engine's batch ends with that exception and no summary, and the endpoint ends unhandled;
  the remaining bookings are not classified.
\<close>

theorem reader_failure_aborts_batch_counterexample:
  "reader_outcome failing_env example_chain (example_row ''r1'' ''locked'' 3)
     = Inl (OtherException ''ConnectionError'' ''connection reset'')
   \<and> build_summary example_settings failing_env example_db ''sepolia'' 2
     = Inl (OtherException ''ConnectionError'' ''connection reset'')
   \<and> get_escrow_reconciliation example_settings failing_env example_db None 2 0
     = Inl (Unhandled (OtherException ''ConnectionError'' ''connection reset''))"
  by code_simp

section \<open>The active chain\<close>

text \<open>
  Claim C5, as amended.  When the configured active key is a key of the registry,
  \<open>get_active_chain\<close> returns that entry; when it is not, \<open>get_active_chain\<close> returns the
  registry's \<open>sepolia\<close> entry, whether or not that network is enabled.  It always returns
  one configuration.
\<close>

theorem active_chain_fallback:
  "(\<forall>c. map_of (get_chain_registry s) (configured_active_key s) = Some c \<longrightarrow>
        get_active_chain s = Inr c)
   \<and> (map_of (get_chain_registry s) (configured_active_key s) = None \<longrightarrow>
        (\<exists>c. get_active_chain s = Inr c
              \<and> map_of (get_chain_registry s) ''sepolia'' = Some c
              \<and> key c = ''sepolia''
              \<and> enabled c = (''sepolia'' \<in> normalize_keys (chain_allowed_keys s))))
   \<and> (\<exists>c. get_active_chain s = Inr c)"
  using get_chain_registry_sepolia[of s]
  by (auto simp: get_active_chain_def configured_active_key_def Let_def split: option.splits)

theorem active_chain_fallback_witness:
  "map_of (get_chain_registry example_settings) (configured_active_key example_settings)
     = Some example_chain
   \<and> get_active_chain example_settings = Inr example_chain
   \<and> map_of (get_chain_registry misconfigured_settings)
        (configured_active_key misconfigured_settings) = None
   \<and> (\<exists>c. get_active_chain misconfigured_settings = Inr c \<and> key c = ''sepolia''
            \<and> enabled c = False)"
proof -
  have h1: "map_of (get_chain_registry example_settings)
              (configured_active_key example_settings) = Some example_chain"
    by code_simp
  have h2: "map_of (get_chain_registry misconfigured_settings)
              (configured_active_key misconfigured_settings) = None"
    by code_simp
  have h3: "(''sepolia'' \<in> normalize_keys (chain_allowed_keys misconfigured_settings)) = False"
    by code_simp
  from active_chain_fallback[of example_settings] active_chain_fallback[of misconfigured_settings]
       h1 h2 h3
  show ?thesis by auto
qed

text \<open>
  Claim C5 as stated fails: with the active key \<open>mainnet\<close> and only \<open>amoy\<close> allowed, the
  first enabled network is \<open>amoy\<close>, and \<open>get_active_chain\<close> returns the disabled \<open>sepolia\<close>
  entry.
\<close>

theorem active_chain_fallback_counterexample:
  "map_of (get_chain_registry misconfigured_settings)
     (configured_active_key misconfigured_settings) = None
   \<and> map_option key (first_enabled_chain misconfigured_settings) = Some ''amoy''
   \<and> isl (get_active_chain misconfigured_settings) = False
   \<and> key (projr (get_active_chain misconfigured_settings)) = ''sepolia''
   \<and> enabled (projr (get_active_chain misconfigured_settings)) = False"
  by code_simp

section \<open>One monitor run\<close>

text \<open>
  Claim C6.  \<open>run_escrow_reconciliation_once_now\<close> never raises: the chain key always
  resolves, and whatever the engine does, the run returns a snapshot, the state left by
  \<open>complete_success\<close> when the engine returned a summary and by \<open>complete_failure\<close> with
  the exception's message when it raised.
\<close>

theorem run_once_returns_snapshot:
  "\<exists>ck. resolve_chain_key s = Inr ck
     \<and> run_escrow_reconciliation_once_now s env db clk st =
         Inr (case build_summary s env db ck (escrow_reconciliation_limit s) of
                Inr sm \<Rightarrow> complete_success (finished_at clk) (elapsed clk) sm
                            (begin_run (started_at clk) ck st)
              | Inl exc \<Rightarrow> complete_failure (finished_at clk) (elapsed clk) (str_exc exc)
                             (begin_run (started_at clk) ck st))"
proof -
  from resolve_chain_key_total obtain ck where ck: "resolve_chain_key s = Inr ck" by blast
  then show ?thesis
    by (auto simp: run_escrow_reconciliation_once_now_def exn_bind_def Let_def
             split: sum.splits)
qed

theorem run_once_returns_snapshot_witness:
  "run_escrow_reconciliation_once_now example_settings failing_env example_db example_clock
     (init_monitor_state example_settings)
     = Inr (complete_failure ''t1'' 1234 ''connection reset''
              (begin_run ''t0'' ''sepolia'' (init_monitor_state example_settings)))
   \<and> run_escrow_reconciliation_once_now example_settings example_env example_db example_clock
       (init_monitor_state example_settings)
     = Inr (complete_success ''t1'' 1234
              \<lparr> total = 3, match = 1, mismatch = 0, missing_onchain = 1, skipped = 1,
                alert = True \<rparr>
              (begin_run ''t0'' ''sepolia'' (init_monitor_state example_settings)))"
proof -
  have r: "resolve_chain_key example_settings = Inr ''sepolia''"
    by code_simp
  have b1: "build_summary example_settings failing_env example_db ''sepolia''
              (escrow_reconciliation_limit example_settings)
            = Inl (OtherException ''ConnectionError'' ''connection reset'')"
    by code_simp
  have b2: "build_summary example_settings example_env example_db ''sepolia''
              (escrow_reconciliation_limit example_settings)
            = Inr \<lparr> total = 3, match = 1, mismatch = 0, missing_onchain = 1, skipped = 1,
                    alert = True \<rparr>"
    by code_simp
  from run_once_returns_snapshot
         [of example_settings failing_env example_db example_clock
             "init_monitor_state example_settings"]
       run_once_returns_snapshot
         [of example_settings example_env example_db example_clock
             "init_monitor_state example_settings"]
       r b1 b2
  show ?thesis by (auto simp: example_clock_def)
qed

section \<open>Settlement results\<close>

text \<open>
  Claim C7.  When a lock, release or refund has been submitted and its receipt has success
  status, a failure to decode the emitted event does not fail the operation: it returns
  its result with the event index \<open>0\<close>, the transaction hash and the on-chain booking
  identifier.
\<close>

theorem event_decode_failure_keeps_result:
  "(require_chain env chain True m = Inr ()
    \<and> account_from_key env (signer_private_key chain) = Inr address
    \<and> to_checksum_address env (cfg_escrow_contract_address chain) = Inr caddr
    \<and> receipt_ok rc)
   \<longrightarrow>
   ((to_checksum_address env address = Inr recipient
     \<and> submit_transaction env s chain address caddr
          (CallLock (keccak_text env rid) recipient) (Some (escrow_lock_amount_wei s)) 280000
         = Inr (txh, rc)
     \<and> decode_fails env ''EscrowLocked'' rc
     \<longrightarrow> lock_reservation_escrow_onchain env s chain rid
           = Inr \<lparr> lock_tx_hash = to_hex env txh,
                   lock_onchain_booking_id = to_hex env (keccak_text env rid),
                   lock_event_index = 0 \<rparr>)
    \<and> (resolve_booking_id_bytes env rid oid = Inr (b, hex)
       \<and> submit_transaction env s chain address caddr (CallRelease b) None 220000 = Inr (txh, rc)
       \<and> decode_fails env ''EscrowReleased'' rc
       \<longrightarrow> release_reservation_escrow_onchain env s chain rid oid
             = Inr \<lparr> tx_hash = to_hex env txh, onchain_booking_id = hex, event_index = 0 \<rparr>)
    \<and> (resolve_booking_id_bytes env rid oid = Inr (b, hex)
       \<and> submit_transaction env s chain address caddr (CallRefund b) None 220000 = Inr (txh, rc)
       \<and> decode_fails env ''EscrowRefunded'' rc
       \<longrightarrow> refund_reservation_escrow_onchain env s chain rid oid
             = Inr \<lparr> tx_hash = to_hex env txh, onchain_booking_id = hex, event_index = 0 \<rparr>))"
proof (intro impI conjI)
  assume pre: "require_chain env chain True m = Inr ()
    \<and> account_from_key env (signer_private_key chain) = Inr address
    \<and> to_checksum_address env (cfg_escrow_contract_address chain) = Inr caddr
    \<and> receipt_ok rc"
  assume lk: "to_checksum_address env address = Inr recipient
     \<and> submit_transaction env s chain address caddr
          (CallLock (keccak_text env rid) recipient) (Some (escrow_lock_amount_wei s)) 280000
         = Inr (txh, rc)
     \<and> decode_fails env ''EscrowLocked'' rc"
  from pre have rq: "require_chain env chain True
      ''Missing web3 dependencies. Install/refresh hillside-api dependencies to enable on-chain escrow lock.''
      = Inr ()"
    by (blast intro: require_chain_msg)
  from pre lk rq show "lock_reservation_escrow_onchain env s chain rid
           = Inr \<lparr> lock_tx_hash = to_hex env txh,
                   lock_onchain_booking_id = to_hex env (keccak_text env rid),
                   lock_event_index = 0 \<rparr>"
    by (simp add: lock_reservation_escrow_onchain_def exn_bind_def Let_def decode_fails_index)
next
  assume pre: "require_chain env chain True m = Inr ()
    \<and> account_from_key env (signer_private_key chain) = Inr address
    \<and> to_checksum_address env (cfg_escrow_contract_address chain) = Inr caddr
    \<and> receipt_ok rc"
  assume rl: "resolve_booking_id_bytes env rid oid = Inr (b, hex)
       \<and> submit_transaction env s chain address caddr (CallRelease b) None 220000 = Inr (txh, rc)
       \<and> decode_fails env ''EscrowReleased'' rc"
  from pre have rq: "require_chain env chain True
      ''Missing web3 dependencies. Install/refresh hillside-api dependencies to release escrow on-chain.''
      = Inr ()"
    by (blast intro: require_chain_msg)
  from pre rl rq show "release_reservation_escrow_onchain env s chain rid oid
             = Inr \<lparr> tx_hash = to_hex env txh, onchain_booking_id = hex, event_index = 0 \<rparr>"
    by (simp add: release_reservation_escrow_onchain_def settle_reservation_escrow_onchain_def
                  exn_bind_def decode_fails_index)
next
  assume pre: "require_chain env chain True m = Inr ()
    \<and> account_from_key env (signer_private_key chain) = Inr address
    \<and> to_checksum_address env (cfg_escrow_contract_address chain) = Inr caddr
    \<and> receipt_ok rc"
  assume rf: "resolve_booking_id_bytes env rid oid = Inr (b, hex)
       \<and> submit_transaction env s chain address caddr (CallRefund b) None 220000 = Inr (txh, rc)
       \<and> decode_fails env ''EscrowRefunded'' rc"
  from pre have rq: "require_chain env chain True
      ''Missing web3 dependencies. Install/refresh hillside-api dependencies to refund escrow on-chain.''
      = Inr ()"
    by (blast intro: require_chain_msg)
  from pre rf rq show "refund_reservation_escrow_onchain env s chain rid oid
             = Inr \<lparr> tx_hash = to_hex env txh, onchain_booking_id = hex, event_index = 0 \<rparr>"
    by (simp add: refund_reservation_escrow_onchain_def settle_reservation_escrow_onchain_def
                  exn_bind_def decode_fails_index)
qed

theorem event_decode_failure_keeps_result_witness:
  "require_chain example_env example_chain True [] = Inr ()
   \<and> receipt_ok \<lparr> status = Some 1, logs = [] \<rparr>
   \<and> decode_fails example_env ''EscrowLocked'' \<lparr> status = Some 1, logs = [] \<rparr>
   \<and> decode_fails example_env ''EscrowReleased'' \<lparr> status = Some 1, logs = [] \<rparr>
   \<and> decode_fails example_env ''EscrowRefunded'' \<lparr> status = Some 1, logs = [] \<rparr>
   \<and> lock_reservation_escrow_onchain example_env example_settings example_chain ''r1''
       = Inr \<lparr> lock_tx_hash = ''0xab'', lock_onchain_booking_id = ''0xr1'',
               lock_event_index = 0 \<rparr>
   \<and> release_reservation_escrow_onchain example_env example_settings example_chain ''r1''
         (Some ''0xAB'')
       = Inr \<lparr> tx_hash = ''0xab'', onchain_booking_id = ''0xab'', event_index = 0 \<rparr>
   \<and> refund_reservation_escrow_onchain example_env example_settings example_chain ''r1''
         (Some ''0xAB'')
       = Inr \<lparr> tx_hash = ''0xab'', onchain_booking_id = ''0xab'', event_index = 0 \<rparr>"
proof -
  let ?rc = "\<lparr> status = Some 1, logs = [] \<rparr>"
  have p1: "require_chain example_env example_chain True [] = Inr ()"
    by code_simp
  have p2: "account_from_key example_env (signer_private_key example_chain) = Inr ''0xab''"
    by code_simp
  have p3: "to_checksum_address example_env (cfg_escrow_contract_address example_chain)
              = Inr ''0x11''"
    by code_simp
  have p4: "receipt_ok ?rc"
    by code_simp
  have l1: "to_checksum_address example_env ''0xab'' = Inr ''0xab''"
    by code_simp
  have l2: "submit_transaction example_env example_settings example_chain ''0xab'' ''0x11''
              (CallLock (keccak_text example_env ''r1'') ''0xab'')
              (Some (escrow_lock_amount_wei example_settings)) 280000 = Inr ([97, 98], ?rc)"
    by code_simp
  have l3: "decode_fails example_env ''EscrowLocked'' ?rc"
    by code_simp
  have r1: "resolve_booking_id_bytes example_env ''r1'' (Some ''0xAB'')
              = Inr (example_bytes ''0xAB'', ''0xab'')"
    by code_simp
  have r2: "submit_transaction example_env example_settings example_chain ''0xab'' ''0x11''
              (CallRelease (example_bytes ''0xAB'')) None 220000 = Inr ([97, 98], ?rc)"
    by code_simp
  have r3: "decode_fails example_env ''EscrowReleased'' ?rc"
    by code_simp
  have f2: "submit_transaction example_env example_settings example_chain ''0xab'' ''0x11''
              (CallRefund (example_bytes ''0xAB'')) None 220000 = Inr ([97, 98], ?rc)"
    by code_simp
  have f3: "decode_fails example_env ''EscrowRefunded'' ?rc"
    by code_simp
  have x1: "to_hex example_env [97, 98] = ''0xab''"
    by code_simp
  have x2: "to_hex example_env (keccak_text example_env ''r1'') = ''0xr1''"
    by code_simp
  from event_decode_failure_keeps_result
         [where env = example_env and chain = example_chain and m = "[]"
            and address = "''0xab''" and caddr = "''0x11''" and rc = ?rc
            and recipient = "''0xab''" and s = example_settings and rid = "''r1''"
            and txh = "[97, 98]" and oid = "Some ''0xAB''" and b = "example_bytes ''0xAB''"
            and hex = "''0xab''"]
       p1 p2 p3 p4 l1 l2 l3 r1 r2 r3 f2 f3 x1 x2
  show ?thesis by simp
qed

text \<open>
  Claim C10.  Release, refund and read use a supplied on-chain booking identifier
  directly exactly when it starts with \<open>0x\<close>: its decoded bytes are what the contract
  function is called with, and it is reported back lowercased.  A supplied identifier
  without that prefix, like none at all, is ignored: the contract is called with the hash
  of the reservation id and its hex is reported.  Lock takes no identifier and always
  calls and reports the hash of the reservation id.  The last part states what submitting
  a contract call means: the call is what the transaction is built from.
\<close>

theorem booking_id_resolution:
  "(startswith v ''0x'' \<longrightarrow>
      resolve_booking_id_bytes env rid (Some v)
        = exn_bind (to_bytes_hexstr env v) (\<lambda>b. Inr (b, lower v)))
   \<and> (\<not> startswith v ''0x'' \<longrightarrow>
        resolve_booking_id_bytes env rid (Some v)
          = Inr (keccak_text env rid, to_hex env (keccak_text env rid)))
   \<and> resolve_booking_id_bytes env rid None
        = Inr (keccak_text env rid, to_hex env (keccak_text env rid))
   \<and> (release_reservation_escrow_onchain env s chain rid oid = Inr r1 \<longrightarrow>
        onchain_booking_id r1 = resolved_booking_id_hex env rid oid
        \<and> (\<exists>b address caddr txh rc.
              resolve_booking_id_bytes env rid oid = Inr (b, onchain_booking_id r1)
              \<and> account_from_key env (signer_private_key chain) = Inr address
              \<and> to_checksum_address env (cfg_escrow_contract_address chain) = Inr caddr
              \<and> submit_transaction env s chain address caddr (CallRelease b) None 220000
                  = Inr (txh, rc)
              \<and> tx_hash r1 = to_hex env txh))
   \<and> (refund_reservation_escrow_onchain env s chain rid oid = Inr r2 \<longrightarrow>
        onchain_booking_id r2 = resolved_booking_id_hex env rid oid
        \<and> (\<exists>b address caddr txh rc.
              resolve_booking_id_bytes env rid oid = Inr (b, onchain_booking_id r2)
              \<and> account_from_key env (signer_private_key chain) = Inr address
              \<and> to_checksum_address env (cfg_escrow_contract_address chain) = Inr caddr
              \<and> submit_transaction env s chain address caddr (CallRefund b) None 220000
                  = Inr (txh, rc)
              \<and> tx_hash r2 = to_hex env txh))
   \<and> (read_escrow_record_onchain env chain rid oid = Inr rec \<longrightarrow>
        booking_id rec = resolved_booking_id_hex env rid oid
        \<and> (\<exists>b caddr row si.
              resolve_booking_id_bytes env rid oid = Inr (b, booking_id rec)
              \<and> to_checksum_address env (cfg_escrow_contract_address chain) = Inr caddr
              \<and> escrows_call env (rpc_url chain) caddr b = Inr row
              \<and> py_int (if length row > 4 then row ! 4 else AbiUInt 0) = Inr si
              \<and> state rec = state_map si))
   \<and> (lock_reservation_escrow_onchain env s chain rid = Inr r0 \<longrightarrow>
        lock_onchain_booking_id r0 = to_hex env (keccak_text env rid)
        \<and> (\<exists>address recipient caddr txh rc.
              account_from_key env (signer_private_key chain) = Inr address
              \<and> to_checksum_address env address = Inr recipient
              \<and> to_checksum_address env (cfg_escrow_contract_address chain) = Inr caddr
              \<and> submit_transaction env s chain address caddr
                   (CallLock (keccak_text env rid) recipient)
                   (Some (escrow_lock_amount_wei s)) 280000 = Inr (txh, rc)
              \<and> lock_tx_hash r0 = to_hex env txh))
   \<and> (submit_transaction env s chain sender target call val g = Inr (txh0, rc0) \<longrightarrow>
        (\<exists>n mp bf tx signed.
           get_transaction_count env (rpc_url chain) sender = Inr n
           \<and> max_priority_fee env (rpc_url chain) = Inr mp
           \<and> gas_price env (rpc_url chain) = Inr bf
           \<and> build_transaction env target call
                \<lparr> chainId = chain_id chain, nonce = n, tx_from = sender, tx_value = val,
                  gas = g, maxFeePerGas = bf + mp, maxPriorityFeePerGas = mp \<rparr> = Inr tx
           \<and> sign_transaction env (signer_private_key chain) tx = Inr signed
           \<and> send_raw_transaction env (rpc_url chain) signed = Inr txh0
           \<and> wait_for_transaction_receipt env (rpc_url chain) txh0
                (escrow_tx_receipt_timeout_sec s) = Inr rc0))"
proof (intro conjI impI)
  assume "startswith v ''0x''"
  then show "resolve_booking_id_bytes env rid (Some v)
        = exn_bind (to_bytes_hexstr env v) (\<lambda>b. Inr (b, lower v))"
    by (simp add: resolve_booking_id_bytes_def startswith_nonempty)
next
  assume "\<not> startswith v ''0x''"
  then show "resolve_booking_id_bytes env rid (Some v)
          = Inr (keccak_text env rid, to_hex env (keccak_text env rid))"
    by (simp add: resolve_booking_id_bytes_def Let_def)
next
  show "resolve_booking_id_bytes env rid None
        = Inr (keccak_text env rid, to_hex env (keccak_text env rid))"
    by (simp add: resolve_booking_id_bytes_def Let_def)
next
  assume a: "release_reservation_escrow_onchain env s chain rid oid = Inr r1"
  from settle_Inr[OF a[unfolded release_reservation_escrow_onchain_def]]
  obtain b address caddr txh rc where
    f: "account_from_key env (signer_private_key chain) = Inr address"
       "to_checksum_address env (cfg_escrow_contract_address chain) = Inr caddr"
       "resolve_booking_id_bytes env rid oid = Inr (b, onchain_booking_id r1)"
       "submit_transaction env s chain address caddr (CallRelease b) None 220000 = Inr (txh, rc)"
       "tx_hash r1 = to_hex env txh"
    by blast
  from resolve_booking_id_bytes_hex[OF f(3)]
  show "onchain_booking_id r1 = resolved_booking_id_hex env rid oid" .
  from f show "\<exists>b address caddr txh rc.
              resolve_booking_id_bytes env rid oid = Inr (b, onchain_booking_id r1)
              \<and> account_from_key env (signer_private_key chain) = Inr address
              \<and> to_checksum_address env (cfg_escrow_contract_address chain) = Inr caddr
              \<and> submit_transaction env s chain address caddr (CallRelease b) None 220000
                  = Inr (txh, rc)
              \<and> tx_hash r1 = to_hex env txh"
    by blast
next
  assume a: "refund_reservation_escrow_onchain env s chain rid oid = Inr r2"
  from settle_Inr[OF a[unfolded refund_reservation_escrow_onchain_def]]
  obtain b address caddr txh rc where
    f: "account_from_key env (signer_private_key chain) = Inr address"
       "to_checksum_address env (cfg_escrow_contract_address chain) = Inr caddr"
       "resolve_booking_id_bytes env rid oid = Inr (b, onchain_booking_id r2)"
       "submit_transaction env s chain address caddr (CallRefund b) None 220000 = Inr (txh, rc)"
       "tx_hash r2 = to_hex env txh"
    by blast
  from resolve_booking_id_bytes_hex[OF f(3)]
  show "onchain_booking_id r2 = resolved_booking_id_hex env rid oid" .
  from f show "\<exists>b address caddr txh rc.
              resolve_booking_id_bytes env rid oid = Inr (b, onchain_booking_id r2)
              \<and> account_from_key env (signer_private_key chain) = Inr address
              \<and> to_checksum_address env (cfg_escrow_contract_address chain) = Inr caddr
              \<and> submit_transaction env s chain address caddr (CallRefund b) None 220000
                  = Inr (txh, rc)
              \<and> tx_hash r2 = to_hex env txh"
    by blast
next
  assume a: "read_escrow_record_onchain env chain rid oid = Inr rec"
  from read_Inr[OF a]
  obtain b caddr row si where
    f: "to_checksum_address env (cfg_escrow_contract_address chain) = Inr caddr"
       "resolve_booking_id_bytes env rid oid = Inr (b, booking_id rec)"
       "escrows_call env (rpc_url chain) caddr b = Inr row"
       "py_int (if length row > 4 then row ! 4 else AbiUInt 0) = Inr si"
       "state rec = state_map si"
    by blast
  from resolve_booking_id_bytes_hex[OF f(2)]
  show "booking_id rec = resolved_booking_id_hex env rid oid" .
  from f show "\<exists>b caddr row si.
              resolve_booking_id_bytes env rid oid = Inr (b, booking_id rec)
              \<and> to_checksum_address env (cfg_escrow_contract_address chain) = Inr caddr
              \<and> escrows_call env (rpc_url chain) caddr b = Inr row
              \<and> py_int (if length row > 4 then row ! 4 else AbiUInt 0) = Inr si
              \<and> state rec = state_map si"
    by blast
next
  assume a: "lock_reservation_escrow_onchain env s chain rid = Inr r0"
  from lock_Inr[OF a]
  obtain address recipient caddr txh rc where
    f: "account_from_key env (signer_private_key chain) = Inr address"
       "to_checksum_address env address = Inr recipient"
       "to_checksum_address env (cfg_escrow_contract_address chain) = Inr caddr"
       "submit_transaction env s chain address caddr
            (CallLock (keccak_text env rid) recipient) (Some (escrow_lock_amount_wei s)) 280000
           = Inr (txh, rc)"
       "lock_onchain_booking_id r0 = to_hex env (keccak_text env rid)"
       "lock_tx_hash r0 = to_hex env txh"
    by blast
  from f(5) show "lock_onchain_booking_id r0 = to_hex env (keccak_text env rid)" .
  from f show "\<exists>address recipient caddr txh rc.
              account_from_key env (signer_private_key chain) = Inr address
              \<and> to_checksum_address env address = Inr recipient
              \<and> to_checksum_address env (cfg_escrow_contract_address chain) = Inr caddr
              \<and> submit_transaction env s chain address caddr
                   (CallLock (keccak_text env rid) recipient)
                   (Some (escrow_lock_amount_wei s)) 280000 = Inr (txh, rc)
              \<and> lock_tx_hash r0 = to_hex env txh"
    by blast
next
  assume "submit_transaction env s chain sender target call val g = Inr (txh0, rc0)"
  then show "\<exists>n mp bf tx signed.
           get_transaction_count env (rpc_url chain) sender = Inr n
           \<and> max_priority_fee env (rpc_url chain) = Inr mp
           \<and> gas_price env (rpc_url chain) = Inr bf
           \<and> build_transaction env target call
                \<lparr> chainId = chain_id chain, nonce = n, tx_from = sender, tx_value = val,
                  gas = g, maxFeePerGas = bf + mp, maxPriorityFeePerGas = mp \<rparr> = Inr tx
           \<and> sign_transaction env (signer_private_key chain) tx = Inr signed
           \<and> send_raw_transaction env (rpc_url chain) signed = Inr txh0
           \<and> wait_for_transaction_receipt env (rpc_url chain) txh0
                (escrow_tx_receipt_timeout_sec s) = Inr rc0"
    by (rule submit_transaction_Inr)
qed


theorem booking_id_resolution_witness:
  "startswith ''0xr1'' ''0x''
   \<and> resolve_booking_id_bytes codec_env ''r3'' (Some ''0xr1'')
       = Inr (example_bytes ''r1'', ''0xr1'')
   \<and> \<not> startswith ''r1'' ''0x''
   \<and> resolve_booking_id_bytes codec_env ''r3'' (Some ''r1'')
       = Inr (example_bytes ''r3'', ''0xr3'')
   \<and> isl (read_escrow_record_onchain codec_env example_chain ''r3'' (Some ''0xr1'')) = False
   \<and> booking_id (projr (read_escrow_record_onchain codec_env example_chain ''r3''
         (Some ''0xr1''))) = ''0xr1''
   \<and> (\<exists>row si. escrows_call codec_env (rpc_url example_chain) ''0x11'' (example_bytes ''r1'')
                     = Inr row
                 \<and> py_int (if length row > 4 then row ! 4 else AbiUInt 0) = Inr si
                 \<and> state (projr (read_escrow_record_onchain codec_env example_chain ''r3''
                       (Some ''0xr1''))) = state_map si)
   \<and> isl (release_reservation_escrow_onchain codec_env example_settings example_chain ''r3''
             (Some ''0xr1'')) = False
   \<and> onchain_booking_id (projr (release_reservation_escrow_onchain codec_env
         example_settings example_chain ''r3'' (Some ''0xr1''))) = ''0xr1''
   \<and> (\<exists>address caddr txh rc.
          submit_transaction codec_env example_settings example_chain address caddr
            (CallRelease (example_bytes ''r1'')) None 220000 = Inr (txh, rc)
          \<and> tx_hash (projr (release_reservation_escrow_onchain codec_env example_settings
                example_chain ''r3'' (Some ''0xr1''))) = to_hex codec_env txh)
   \<and> isl (refund_reservation_escrow_onchain codec_env example_settings example_chain ''r3''
             (Some ''0xr1'')) = False
   \<and> (\<exists>address caddr txh rc.
          submit_transaction codec_env example_settings example_chain address caddr
            (CallRefund (example_bytes ''r1'')) None 220000 = Inr (txh, rc)
          \<and> tx_hash (projr (refund_reservation_escrow_onchain codec_env example_settings
                example_chain ''r3'' (Some ''0xr1''))) = to_hex codec_env txh)
   \<and> isl (lock_reservation_escrow_onchain codec_env example_settings example_chain ''r3'')
       = False
   \<and> lock_onchain_booking_id (projr (lock_reservation_escrow_onchain codec_env
         example_settings example_chain ''r3'')) = ''0xr3''
   \<and> submit_transaction codec_env example_settings example_chain ''0xab'' ''0x11''
         (CallRelease (example_bytes ''r1'')) None 220000
       = Inr ([97, 98], \<lparr> status = Some 1, logs = [] \<rparr>)"
proof -
  let ?rel = "release_reservation_escrow_onchain codec_env example_settings example_chain
                ''r3'' (Some ''0xr1'')"
  let ?ref = "refund_reservation_escrow_onchain codec_env example_settings example_chain
                ''r3'' (Some ''0xr1'')"
  let ?rd = "read_escrow_record_onchain codec_env example_chain ''r3'' (Some ''0xr1'')"
  let ?lk = "lock_reservation_escrow_onchain codec_env example_settings example_chain ''r3''"
  let ?rc = "\<lparr> status = Some 1, logs = [] \<rparr>"
  have a1: "startswith ''0xr1'' ''0x''" by code_simp
  have a2: "\<not> startswith ''r1'' ''0x''" by code_simp
  have a3: "resolve_booking_id_bytes codec_env ''r3'' (Some ''0xr1'')
              = Inr (example_bytes ''r1'', ''0xr1'')" by code_simp
  have a4: "resolve_booking_id_bytes codec_env ''r3'' (Some ''r1'')
              = Inr (example_bytes ''r3'', ''0xr3'')" by code_simp
  have a5: "to_hex codec_env (keccak_text codec_env ''r3'') = ''0xr3''" by code_simp
  have a6: "to_checksum_address codec_env (cfg_escrow_contract_address example_chain)
              = Inr ''0x11''" by code_simp
  have b1: "?rel = Inr (projr ?rel)" by code_simp
  have b2: "?ref = Inr (projr ?ref)" by code_simp
  have b3: "?rd = Inr (projr ?rd)" by code_simp
  have b4: "?lk = Inr (projr ?lk)" by code_simp
  have c1: "isl ?rel = False" "isl ?ref = False" "isl ?rd = False" "isl ?lk = False"
    by code_simp+
  have d1: "onchain_booking_id (projr ?rel) = ''0xr1''" by code_simp
  have d2: "onchain_booking_id (projr ?ref) = ''0xr1''" by code_simp
  have d3: "booking_id (projr ?rd) = ''0xr1''" by code_simp
  have s1: "submit_transaction codec_env example_settings example_chain ''0xab'' ''0x11''
              (CallRelease (example_bytes ''r1'')) None 220000 = Inr ([97, 98], ?rc)"
    by code_simp
  note T = booking_id_resolution
         [where v = "''0xr1''" and env = codec_env and rid = "''r3''"
            and s = example_settings and chain = example_chain and oid = "Some ''0xr1''"
            and ?r1.0 = "projr ?rel" and ?r2.0 = "projr ?ref" and rec = "projr ?rd"
            and ?r0.0 = "projr ?lk" and sender = "''0xab''" and target = "''0x11''"
            and call = "CallRelease (example_bytes ''r1'')" and val = None and g = 220000
            and ?txh0.0 = "[97, 98]" and ?rc0.0 = ?rc]
  from T b1 have "\<exists>b address caddr txh rc.
              resolve_booking_id_bytes codec_env ''r3'' (Some ''0xr1'')
                = Inr (b, onchain_booking_id (projr ?rel))
              \<and> account_from_key codec_env (signer_private_key example_chain) = Inr address
              \<and> to_checksum_address codec_env (cfg_escrow_contract_address example_chain)
                  = Inr caddr
              \<and> submit_transaction codec_env example_settings example_chain address caddr
                   (CallRelease b) None 220000 = Inr (txh, rc)
              \<and> tx_hash (projr ?rel) = to_hex codec_env txh"
    by blast
  then have e1: "\<exists>address caddr txh rc.
          submit_transaction codec_env example_settings example_chain address caddr
            (CallRelease (example_bytes ''r1'')) None 220000 = Inr (txh, rc)
          \<and> tx_hash (projr ?rel) = to_hex codec_env txh"
    unfolding a3 by auto
  from T b2 have "\<exists>b address caddr txh rc.
              resolve_booking_id_bytes codec_env ''r3'' (Some ''0xr1'')
                = Inr (b, onchain_booking_id (projr ?ref))
              \<and> account_from_key codec_env (signer_private_key example_chain) = Inr address
              \<and> to_checksum_address codec_env (cfg_escrow_contract_address example_chain)
                  = Inr caddr
              \<and> submit_transaction codec_env example_settings example_chain address caddr
                   (CallRefund b) None 220000 = Inr (txh, rc)
              \<and> tx_hash (projr ?ref) = to_hex codec_env txh"
    by blast
  then have e2: "\<exists>address caddr txh rc.
          submit_transaction codec_env example_settings example_chain address caddr
            (CallRefund (example_bytes ''r1'')) None 220000 = Inr (txh, rc)
          \<and> tx_hash (projr ?ref) = to_hex codec_env txh"
    unfolding a3 by auto
  from T b3 have "\<exists>b caddr row si.
              resolve_booking_id_bytes codec_env ''r3'' (Some ''0xr1'')
                = Inr (b, booking_id (projr ?rd))
              \<and> to_checksum_address codec_env (cfg_escrow_contract_address example_chain)
                  = Inr caddr
              \<and> escrows_call codec_env (rpc_url example_chain) caddr b = Inr row
              \<and> py_int (if length row > 4 then row ! 4 else AbiUInt 0) = Inr si
              \<and> state (projr ?rd) = state_map si"
    by blast
  then have e3: "\<exists>row si. escrows_call codec_env (rpc_url example_chain) ''0x11''
                       (example_bytes ''r1'') = Inr row
                 \<and> py_int (if length row > 4 then row ! 4 else AbiUInt 0) = Inr si
                 \<and> state (projr ?rd) = state_map si"
    unfolding a3 a6 by auto
  from T b4 a5 have e4: "lock_onchain_booking_id (projr ?lk) = ''0xr3''"
    by simp
  from a1 a2 a3 a4 c1 d1 d3 e1 e2 e3 e4 s1 show ?thesis
    by (intro conjI) assumption+
qed

section \<open>Clearing a stale shadow record\<close>

text \<open>
  Claim C8, as amended.  \<open>clear_reservation_shadow_escrow_metadata\<close> resets the escrow
  fields of exactly the rows that match the reservation id, the chain key, the state
  \<open>pending_lock\<close> and the expected transaction hash.  Its result is the post-condition read
  back from the booking's row after the write: state \<open>none\<close> and no chain key, transaction
  hash or on-chain booking id.  It is true when the row matched, and false when the row
  holds a transaction hash other than the expected one.
\<close>

theorem clear_shadow_guarded:
  "clear_reservation_shadow_escrow_metadata s db rid k h = Inr (ok, db') \<longrightarrow>
     reservations db'
       = map (\<lambda>r. if shadow_guard rid k h r then shadow_cleared r else r) (reservations db)
     \<and> ok = (case find (\<lambda>r. row_reservation_id r = Some rid) (reservations db') of
               None \<Rightarrow> False
             | Some r \<Rightarrow> shadow_postcondition r)
     \<and> (\<forall>r. find (\<lambda>r. row_reservation_id r = Some rid) (reservations db) = Some r \<longrightarrow>
            (shadow_guard rid k h r \<longrightarrow> ok)
            \<and> ((\<exists>h'. row_chain_tx_hash r = Some h' \<and> h' \<noteq> h) \<longrightarrow> \<not> ok))"
proof (intro impI)
  assume a: "clear_reservation_shadow_escrow_metadata s db rid k h = Inr (ok, db')"
  let ?f = "\<lambda>r. if shadow_guard rid k h r then shadow_cleared r else r"
  let ?P = "\<lambda>r. row_reservation_id r = Some rid"
  from a have tbl: "reservations db' = map ?f (reservations db)"
    and ok: "ok = (case take 1 (filter ?P (map ?f (reservations db))) of
                     [] \<Rightarrow> False | r # _ \<Rightarrow> shadow_postcondition r)"
    by (auto simp: clear_reservation_shadow_escrow_metadata_def exn_bind_def db_request_def Let_def
             split: if_splits option.splits)
  have fm: "find ?P (map ?f (reservations db)) = map_option ?f (find ?P (reservations db))"
    by (rule find_map_same) (simp add: shadow_cleared_id)
  from ok have ok2: "ok = (case find ?P (map ?f (reservations db)) of
                             None \<Rightarrow> False | Some r \<Rightarrow> shadow_postcondition r)"
    by (simp only: take1_filter_find)
  have third: "\<forall>r. find ?P (reservations db) = Some r \<longrightarrow>
            (shadow_guard rid k h r \<longrightarrow> ok)
            \<and> ((\<exists>h'. row_chain_tx_hash r = Some h' \<and> h' \<noteq> h) \<longrightarrow> \<not> ok)"
  proof (intro allI impI conjI)
    fix r assume f: "find ?P (reservations db) = Some r" and g: "shadow_guard rid k h r"
    from ok2 fm f g show ok by (simp add: shadow_postcondition_cleared)
  next
    fix r assume f: "find ?P (reservations db) = Some r"
      and g: "\<exists>h'. row_chain_tx_hash r = Some h' \<and> h' \<noteq> h"
    from g have ng: "\<not> shadow_guard rid k h r" by (auto simp: shadow_guard_def)
    from g have "\<not> shadow_postcondition r" by (auto simp: shadow_postcondition_def)
    with ok2 fm f ng show "\<not> ok" by simp
  qed
  from tbl ok2 third show "reservations db'
       = map ?f (reservations db)
     \<and> ok = (case find ?P (reservations db') of
               None \<Rightarrow> False
             | Some r \<Rightarrow> shadow_postcondition r)
     \<and> (\<forall>r. find ?P (reservations db) = Some r \<longrightarrow>
            (shadow_guard rid k h r \<longrightarrow> ok)
            \<and> ((\<exists>h'. row_chain_tx_hash r = Some h' \<and> h' \<noteq> h) \<longrightarrow> \<not> ok))"
    by simp
qed

theorem clear_shadow_guarded_witness:
  "clear_reservation_shadow_escrow_metadata example_settings
     (shadow_db (shadow_row ''shadow-1'')) ''r9'' ''sepolia'' ''shadow-1''
     = Inr (True, shadow_db (shadow_cleared (shadow_row ''shadow-1'')))
   \<and> shadow_guard ''r9'' ''sepolia'' ''shadow-1'' (shadow_row ''shadow-1'')
   \<and> clear_reservation_shadow_escrow_metadata example_settings
       (shadow_db (shadow_row ''0xfeed'')) ''r9'' ''sepolia'' ''shadow-1''
     = Inr (False, shadow_db (shadow_row ''0xfeed''))
   \<and> row_chain_tx_hash (shadow_row ''0xfeed'') = Some ''0xfeed''
   \<and> ''0xfeed'' \<noteq> ''shadow-1''"
proof -
  have e1: "clear_reservation_shadow_escrow_metadata example_settings
              (shadow_db (shadow_row ''shadow-1'')) ''r9'' ''sepolia'' ''shadow-1''
            = Inr (True, shadow_db (shadow_cleared (shadow_row ''shadow-1'')))"
    by code_simp
  have e2: "clear_reservation_shadow_escrow_metadata example_settings
              (shadow_db (shadow_row ''0xfeed'')) ''r9'' ''sepolia'' ''shadow-1''
            = Inr (False, shadow_db (shadow_row ''0xfeed''))"
    by code_simp
  have g1: "shadow_guard ''r9'' ''sepolia'' ''shadow-1'' (shadow_row ''shadow-1'')"
    by code_simp
  have g2: "row_chain_tx_hash (shadow_row ''0xfeed'') = Some ''0xfeed''"
    by code_simp
  from clear_shadow_guarded
         [where s = example_settings and db = "shadow_db (shadow_row ''shadow-1'')"
            and rid = "''r9''" and k = "''sepolia''" and h = "''shadow-1''" and ok = True
            and db' = "shadow_db (shadow_cleared (shadow_row ''shadow-1''))"]
       clear_shadow_guarded
         [where s = example_settings and db = "shadow_db (shadow_row ''0xfeed'')"
            and rid = "''r9''" and k = "''sepolia''" and h = "''shadow-1''" and ok = False
            and db' = "shadow_db (shadow_row ''0xfeed'')"]
       e1 e2 g1 g2
  show ?thesis by simp
qed

text \<open>
  Claim C8 as stated fails in one case: a candidate found with the hash \<open>shadow-1\<close> whose
  row another cleanup has cleared in the meantime (hash now NULL).  The guarded write
  matches nothing, the post-condition holds on the row, and the result is true.
\<close>

theorem clear_shadow_changed_hash_counterexample:
  "row_chain_tx_hash (shadow_row ''shadow-1'') = Some ''shadow-1''
   \<and> row_chain_tx_hash cleared_row \<noteq> Some ''shadow-1''
   \<and> clear_reservation_shadow_escrow_metadata example_settings (shadow_db cleared_row)
        ''r9'' ''sepolia'' ''shadow-1''
      = Inr (True, shadow_db cleared_row)"
  by code_simp

section \<open>Determinism of reconciliation\<close>

text \<open>
  Claim C9, as amended.  Two reconciliation runs with the same chain key and limit yield
  identical summaries when the database returns the same page of candidate rows and the
  same count to both, and the Record Reader returns the same outcome, the same record or
  the same failure, for every booking on that page.
\<close>

theorem reconciliation_deterministic:
  "list_reservations_for_escrow_reconciliation s db1 k lim 0
      = list_reservations_for_escrow_reconciliation s db2 k lim 0
    \<and> (\<forall>chain rows cnt.
          map_of (get_chain_registry s) k = Some chain \<longrightarrow>
          list_reservations_for_escrow_reconciliation s db1 k lim 0 = Inr (rows, cnt) \<longrightarrow>
          (\<forall>r \<in> set rows. reader_outcome env1 chain r = reader_outcome env2 chain r))
    \<longrightarrow> build_summary s env1 db1 k lim = build_summary s env2 db2 k lim"
proof (rule impI)
  assume h: "list_reservations_for_escrow_reconciliation s db1 k lim 0
      = list_reservations_for_escrow_reconciliation s db2 k lim 0
    \<and> (\<forall>chain rows cnt.
          map_of (get_chain_registry s) k = Some chain \<longrightarrow>
          list_reservations_for_escrow_reconciliation s db1 k lim 0 = Inr (rows, cnt) \<longrightarrow>
          (\<forall>r \<in> set rows. reader_outcome env1 chain r = reader_outcome env2 chain r))"
  from h have h0: "list_reservations_for_escrow_reconciliation s db1 k lim 0
      = list_reservations_for_escrow_reconciliation s db2 k lim 0"
    by (rule conjunct1)
  from h0 have h1: "list_reservations_for_escrow_reconciliation s db2 k lim 0
      = list_reservations_for_escrow_reconciliation s db1 k lim 0"
    by (rule sym)
  from h have h2: "\<forall>chain rows cnt.
          map_of (get_chain_registry s) k = Some chain \<longrightarrow>
          list_reservations_for_escrow_reconciliation s db1 k lim 0 = Inr (rows, cnt) \<longrightarrow>
          (\<forall>r \<in> set rows. reader_outcome env1 chain r = reader_outcome env2 chain r)"
    by (rule conjunct2)
  show "build_summary s env1 db1 k lim = build_summary s env2 db2 k lim"
  proof (cases "map_of (get_chain_registry s) k")
    case None
    show ?thesis unfolding build_summary_def None by simp
  next
    case (Some chain)
    show ?thesis
    proof (cases "list_reservations_for_escrow_reconciliation s db1 k lim 0")
      case (Inl e)
      show ?thesis
        unfolding build_summary_def Some h1 Inl by (simp add: exn_bind_def)
    next
      case (Inr pg)
      obtain rows cnt where pg: "pg = (rows, cnt)" by (cases pg)
      from Inr pg have pg1: "list_reservations_for_escrow_reconciliation s db1 k lim 0
                               = Inr (rows, cnt)"
        by simp
      from h2 Some pg1 have
        "\<forall>r \<in> set rows. reader_outcome env1 chain r = reader_outcome env2 chain r"
        by (elim allE impE) assumption+
      then have lp: "build_summary_loop env1 chain rows = build_summary_loop env2 chain rows"
        by (rule build_summary_loop_cong)
      show ?thesis
        unfolding build_summary_def Some h1 pg1 by (simp add: exn_bind_def lp)
    qed
  qed
qed

theorem reconciliation_deterministic_witness:
  "list_reservations_for_escrow_reconciliation example_settings example_db ''sepolia'' 2 0
     = list_reservations_for_escrow_reconciliation example_settings side_db ''sepolia'' 2 0
   \<and> list_reservations_for_escrow_reconciliation example_settings example_db ''sepolia'' 2 0
     = Inr ([example_row ''r1'' ''locked'' 3, example_row ''r2'' ''locked'' 2], 3)
   \<and> reader_outcome example_env example_chain (example_row ''r1'' ''locked'' 3)
     = reader_outcome side_env example_chain (example_row ''r1'' ''locked'' 3)
   \<and> reader_outcome example_env example_chain (example_row ''r2'' ''locked'' 2)
     = reader_outcome side_env example_chain (example_row ''r2'' ''locked'' 2)
   \<and> build_summary example_settings example_env example_db ''sepolia'' 2
     = build_summary example_settings side_env side_db ''sepolia'' 2"
proof -
  let ?r1 = "example_row ''r1'' ''locked'' 3"
  let ?r2 = "example_row ''r2'' ''locked'' 2"
  have p1: "list_reservations_for_escrow_reconciliation example_settings example_db ''sepolia'' 2 0
            = list_reservations_for_escrow_reconciliation example_settings side_db ''sepolia'' 2 0"
    by code_simp
  have p2: "list_reservations_for_escrow_reconciliation example_settings example_db ''sepolia'' 2 0
            = Inr ([?r1, ?r2], 3)"
    by code_simp
  have p3: "map_of (get_chain_registry example_settings) ''sepolia'' = Some example_chain"
    by code_simp
  have q1: "reader_outcome example_env example_chain ?r1 = reader_outcome side_env example_chain ?r1"
    by code_simp
  have q2: "reader_outcome example_env example_chain ?r2 = reader_outcome side_env example_chain ?r2"
    by code_simp
  have hyp: "\<forall>chain rows cnt.
      map_of (get_chain_registry example_settings) ''sepolia'' = Some chain \<longrightarrow>
      list_reservations_for_escrow_reconciliation example_settings example_db ''sepolia'' 2 0
        = Inr (rows, cnt) \<longrightarrow>
      (\<forall>r \<in> set rows. reader_outcome example_env chain r = reader_outcome side_env chain r)"
    unfolding p2 p3 using q1 q2 by auto
  from reconciliation_deterministic
         [where s = example_settings and ?db1.0 = example_db and k = "''sepolia''" and lim = 2
            and ?db2.0 = side_db and ?env1.0 = example_env and ?env2.0 = side_env]
       p1 hyp
  have "build_summary example_settings example_env example_db ''sepolia'' 2
          = build_summary example_settings side_env side_db ''sepolia'' 2"
    by blast
  with p1 p2 q1 q2 show ?thesis by (intro conjI) assumption+
qed

text \<open>
  Claim C9 as stated fails: unchanged rows and unchanged on-chain records do not fix
  the summary.  With the same table and the same contract answers, a run while the node
  is unreachable counts the booking as skipped where the other run counts a match; and
  the same two rows of equal \<open>created_at\<close>, returned in the other order, put another
  booking on a page of one and change the counters and the alert flag.
\<close>

theorem reconciliation_rerun_counterexample:
  "escrows_call offline_env = escrows_call example_env
   \<and> build_summary example_settings example_env example_db ''sepolia'' 1
     = Inr \<lparr> total = 3, match = 1, mismatch = 0, missing_onchain = 0, skipped = 0,
             alert = False \<rparr>
   \<and> build_summary example_settings offline_env example_db ''sepolia'' 1
     = Inr \<lparr> total = 3, match = 0, mismatch = 0, missing_onchain = 0, skipped = 1,
             alert = False \<rparr>
   \<and> reservations tie_db_swapped = rev (reservations tie_db)
   \<and> build_summary example_settings example_env tie_db ''sepolia'' 1
     = Inr \<lparr> total = 2, match = 1, mismatch = 0, missing_onchain = 0, skipped = 0,
             alert = False \<rparr>
   \<and> build_summary example_settings example_env tie_db_swapped ''sepolia'' 1
     = Inr \<lparr> total = 2, match = 0, mismatch = 0, missing_onchain = 1, skipped = 0,
             alert = True \<rparr>"
proof -
  have a: "escrows_call offline_env = escrows_call example_env"
    by (simp add: offline_env_def)
  have b: "build_summary example_settings example_env example_db ''sepolia'' 1
     = Inr \<lparr> total = 3, match = 1, mismatch = 0, missing_onchain = 0, skipped = 0,
             alert = False \<rparr>"
    by code_simp
  have c: "build_summary example_settings offline_env example_db ''sepolia'' 1
     = Inr \<lparr> total = 3, match = 0, mismatch = 0, missing_onchain = 0, skipped = 1,
             alert = False \<rparr>"
    by code_simp
  have d: "reservations tie_db_swapped = rev (reservations tie_db)"
    by (simp add: tie_db_def tie_db_swapped_def)
  have e: "build_summary example_settings example_env tie_db ''sepolia'' 1
     = Inr \<lparr> total = 2, match = 1, mismatch = 0, missing_onchain = 0, skipped = 0,
             alert = False \<rparr>"
    by code_simp
  have f: "build_summary example_settings example_env tie_db_swapped ''sepolia'' 1
     = Inr \<lparr> total = 2, match = 0, mismatch = 0, missing_onchain = 1, skipped = 0,
             alert = True \<rparr>"
    by code_simp
  from a b c d e f show ?thesis by (intro conjI) assumption+
qed

end
